theory Spec2Isabelle
  imports Complex_Main "HOL-Library.Sublist"
begin

section \<open>Python text primitives used by the scripts\<close>

text \<open>
  Python strings are sequences of code points. They are modelled as \<open>string\<close>, one
  \<open>char\<close> per code point, which covers the code points below 256; the character
  classes below are Python's \<open>str.isspace\<close>, \<open>str.isprintable\<close> and the regular
  expression class \<open>\d\<close> on that range.
\<close>

definition isspace :: "char \<Rightarrow> bool" where
  "isspace c \<longleftrightarrow> (of_char c :: nat) \<in> {9, 10, 11, 12, 13, 28, 29, 30, 31, 32, 133, 160}"

definition isprintable :: "char \<Rightarrow> bool" where
  "isprintable c \<longleftrightarrow>
     (let n = (of_char c :: nat) in (32 \<le> n \<and> n \<le> 126) \<or> (161 \<le> n \<and> n \<noteq> 173))"

definition isdecimal :: "char \<Rightarrow> bool" where
  "isdecimal c \<longleftrightarrow> (let n = (of_char c :: nat) in 48 \<le> n \<and> n \<le> 57)"

definition newline :: char where
  "newline = CHR 0x0A"

definition tab :: char where
  "tab = CHR 0x09"

text \<open>\<open>sub in s\<close>\<close>

definition str_in :: "string \<Rightarrow> string \<Rightarrow> bool" where
  "str_in sub s \<longleftrightarrow> sublist sub s"

text \<open>\<open>s.find(sub)\<close>: the lowest index at which \<open>sub\<close> starts, or \<open>-1\<close>.\<close>

fun find_from :: "string \<Rightarrow> string \<Rightarrow> nat \<Rightarrow> int" where
  "find_from sub [] i = (if sub = [] then int i else - 1)"
| "find_from sub (c # cs) i = (if prefix sub (c # cs) then int i else find_from sub cs (Suc i))"

definition str_find :: "string \<Rightarrow> string \<Rightarrow> int" where
  "str_find s sub = find_from sub s 0"

text \<open>\<open>s.rfind(sub)\<close>: the highest index at which \<open>sub\<close> starts, or \<open>-1\<close>.\<close>

fun rfind_from :: "string \<Rightarrow> string \<Rightarrow> nat \<Rightarrow> int \<Rightarrow> int" where
  "rfind_from sub [] i acc = (if sub = [] then int i else acc)"
| "rfind_from sub (c # cs) i acc =
     rfind_from sub cs (Suc i) (if prefix sub (c # cs) then int i else acc)"

definition str_rfind :: "string \<Rightarrow> string \<Rightarrow> int" where
  "str_rfind s sub = rfind_from sub s 0 (- 1)"

text \<open>\<open>s[i:]\<close> for an index \<open>i \<ge> 0\<close>.\<close>

definition slice_from :: "string \<Rightarrow> int \<Rightarrow> string" where
  "slice_from s i = drop (nat i) s"

text \<open>\<open>s.strip()\<close>, \<open>s.rstrip()\<close>, \<open>s.isspace()\<close>, \<open>sep.join(xs)\<close>.\<close>

definition rstrip :: "string \<Rightarrow> string" where
  "rstrip s = rev (dropWhile isspace (rev s))"

definition strip :: "string \<Rightarrow> string" where
  "strip s = rstrip (dropWhile isspace s)"

definition str_isspace :: "string \<Rightarrow> bool" where
  "str_isspace s \<longleftrightarrow> s \<noteq> [] \<and> list_all isspace s"

fun join :: "string \<Rightarrow> string list \<Rightarrow> string" where
  "join sep [] = []"
| "join sep [x] = x"
| "join sep (x # y # ys) = x @ sep @ join sep (y # ys)"

text \<open>
  \<open>s.split(sep)\<close> for a non-empty separator: the pieces between the non-overlapping
  occurrences of \<open>sep\<close>, found from left to right. (Python raises \<open>ValueError\<close> for an
  empty separator; every separator in the scripts is a non-empty literal.)
\<close>

lemma find_from_bounds: "0 \<le> find_from sub s i \<Longrightarrow> sub \<noteq> [] \<Longrightarrow> s \<noteq> []"
  by (cases s) auto

function str_split :: "string \<Rightarrow> string \<Rightarrow> string list" where
  "str_split s sep =
     (if sep = [] \<or> str_find s sep < 0 then [s]
      else take (nat (str_find s sep)) s
           # str_split (drop (nat (str_find s sep) + length sep) s) sep)"
  by pat_completeness auto
termination
proof (relation "measure (\<lambda>(s, sep). length s)")
  show "wf (measure (\<lambda>(s, sep). length s))"
    by simp
next
  fix s sep :: string
  assume "\<not> (sep = [] \<or> str_find s sep < 0)"
  then have "sep \<noteq> []" and "s \<noteq> []"
    using find_from_bounds [of sep s 0] by (auto simp: str_find_def)
  then show "((drop (nat (str_find s sep) + length sep) s, sep), (s, sep))
               \<in> measure (\<lambda>(s, sep). length s)"
    by simp
qed

declare str_split.simps [simp del]

text \<open>\<open>s.split()\<close>: the maximal runs of non-whitespace characters.\<close>

function split_ws :: "string \<Rightarrow> string list" where
  "split_ws s =
     (if dropWhile isspace s = [] then []
      else takeWhile (\<lambda>c. \<not> isspace c) (dropWhile isspace s)
           # split_ws (dropWhile (\<lambda>c. \<not> isspace c) (dropWhile isspace s)))"
  by pat_completeness auto
termination
proof (relation "measure length")
  show "wf (measure length)"
    by simp
next
  fix s :: string
  assume ne: "dropWhile isspace s \<noteq> []"
  then obtain c cs where c: "dropWhile isspace s = c # cs"
    by (cases "dropWhile isspace s") auto
  then have "\<not> isspace c"
    using hd_dropWhile [of isspace s] by simp
  then have "length (dropWhile (\<lambda>c. \<not> isspace c) (dropWhile isspace s)) \<le> length cs"
    by (simp add: c length_dropWhile_le)
  moreover have "length (dropWhile isspace s) \<le> length s"
    by (rule length_dropWhile_le)
  ultimately show "(dropWhile (\<lambda>c. \<not> isspace c) (dropWhile isspace s), s) \<in> measure length"
    by (simp add: c)
qed

declare split_ws.simps [simp del]

text \<open>\<open>str(n)\<close> for an integer.\<close>

definition digit_char :: "nat \<Rightarrow> char" where
  "digit_char d = ''0123456789'' ! d"

function str_nat :: "nat \<Rightarrow> string" where
  "str_nat n = (if n < 10 then [digit_char n] else str_nat (n div 10) @ [digit_char (n mod 10)])"
  by pat_completeness auto
termination
  by (relation "measure (\<lambda>n. n)") auto

definition str_int :: "int \<Rightarrow> string" where
  "str_int i = (if i < 0 then CHR ''-'' # str_nat (nat (- i)) else str_nat (nat i))"

section \<open>The performance pattern\<close>

text \<open>
  All scripts scrape the engine's output with the regular expression
  \<^verbatim>\<open>(\d+\.?\d*)\s*tokens per second\<close>. At a fixed start position the pattern can match in
  one way only: the digits of \<open>\d+\<close> must be the whole run of digits (what follows is a dot,
  white space or the letter t), a dot that is there must be taken (the literal does not start
  with a dot), and \<open>\s*\<close> must take the whole run of white space. \<open>match_number\<close> returns
  group 1 and the text after it, \<open>match_at\<close> the group and the text after the whole match.
\<close>

definition match_number :: "string \<Rightarrow> (string \<times> string) option" where
  "match_number s =
     (let d1 = takeWhile isdecimal s; r1 = dropWhile isdecimal s in
      if d1 = [] then None
      else (case r1 of
              [] \<Rightarrow> Some (d1, [])
            | c # r2 \<Rightarrow>
                if c = CHR ''.'' then Some (d1 @ [c] @ takeWhile isdecimal r2, dropWhile isdecimal r2)
                else Some (d1, r1)))"

definition match_at :: "string \<Rightarrow> (string \<times> string) option" where
  "match_at s =
     (case match_number s of
        None \<Rightarrow> None
      | Some (g, r) \<Rightarrow>
          (let r' = dropWhile isspace r in
           if prefix ''tokens per second'' r' then Some (g, drop (length ''tokens per second'') r')
           else None))"

text \<open>
  What it means for the pattern to match at the start of \<open>s\<close> with group 1 equal to \<open>g\<close> and
  \<open>r\<close> left over, read off the regular expression itself.
\<close>

definition pattern_matches :: "string \<Rightarrow> string \<Rightarrow> string \<Rightarrow> bool" where
  "pattern_matches s g r \<longleftrightarrow>
     (\<exists>d1 dot d2 ws.
        s = d1 @ dot @ d2 @ ws @ ''tokens per second'' @ r \<and> g = d1 @ dot @ d2
        \<and> d1 \<noteq> [] \<and> list_all isdecimal d1 \<and> (dot = [] \<or> dot = ''.'')
        \<and> list_all isdecimal d2 \<and> list_all isspace ws)"

text \<open>\<open>re.search(pattern, s)\<close>: group 1 of the leftmost match.\<close>

fun re_search :: "string \<Rightarrow> string option" where
  "re_search [] = None"
| "re_search (c # cs) =
     (case match_at (c # cs) of Some (g, r) \<Rightarrow> Some g | None \<Rightarrow> re_search cs)"

text \<open>\<open>re.findall(pattern, s)\<close>: group 1 of every non-overlapping match, left to right.\<close>

lemma match_number_shorter:
  assumes "match_number s = Some (g, r0)"
  shows "length r0 < length s"
proof -
  have ne: "takeWhile isdecimal s \<noteq> []"
    using assms by (auto simp: match_number_def Let_def split: if_splits)
  have "length (takeWhile isdecimal s) + length (dropWhile isdecimal s) = length s"
    by (metis length_append takeWhile_dropWhile_id)
  with ne have less: "length (dropWhile isdecimal s) < length s"
    by (cases "takeWhile isdecimal s") auto
  have "r0 = dropWhile isdecimal s \<or> r0 = [] \<or> r0 = dropWhile isdecimal (tl (dropWhile isdecimal s))"
    using assms by (auto simp: match_number_def Let_def split: if_splits list.splits)
  moreover have "length (dropWhile isdecimal (tl (dropWhile isdecimal s)))
                   \<le> length (dropWhile isdecimal s)"
    by (metis diff_le_self le_trans length_dropWhile_le length_tl)
  ultimately show ?thesis
    using less by auto
qed

lemma match_at_shorter: "match_at s = Some (g, r) \<Longrightarrow> length r < length s"
proof -
  assume m: "match_at s = Some (g, r)"
  then obtain r0 where n: "match_number s = Some (g, r0)"
    and r: "r = drop (length ''tokens per second'') (dropWhile isspace r0)"
    by (auto simp: match_at_def Let_def split: option.splits if_splits)
  have "length (dropWhile isspace r0) \<le> length r0"
    by (rule length_dropWhile_le)
  then have "length r \<le> length r0"
    unfolding r by simp
  with match_number_shorter [OF n] show ?thesis
    by simp
qed

function re_findall :: "string \<Rightarrow> string list" where
  "re_findall s =
     (case match_at s of
        Some (g, r) \<Rightarrow> g # re_findall r
      | None \<Rightarrow> (case s of [] \<Rightarrow> [] | c # cs \<Rightarrow> re_findall cs))"
  by pat_completeness auto
termination
  by (relation "measure length") (auto simp: match_at_shorter)

declare re_findall.simps [simp del]

text \<open>
  \<open>float(g)\<close> for a matched group \<open>g\<close> (digits, optionally a dot and more digits): the
  decimal number written there. Python rounds it to the nearest double; the model keeps the
  exact value.
\<close>

definition digits_value :: "string \<Rightarrow> nat" where
  "digits_value ds = foldl (\<lambda>a c. 10 * a + (of_char c - 48)) 0 ds"

definition float_of_group :: "string \<Rightarrow> rat" where
  "float_of_group g =
     (let ip = takeWhile isdecimal g; fp = drop (Suc (length ip)) g in
      of_nat (digits_value ip) + of_nat (digits_value fp) / 10 ^ length fp)"

section \<open>The external process\<close>

text \<open>
  The engine is an external process. What the scripts can observe of one invocation is
  whether it exits (after some time, with a return code and the text of its two streams),
  never exits, or cannot be started. \<open>subprocess.run\<close> with a timeout raises
  \<open>TimeoutExpired\<close> when the process has not exited in time; without a timeout it waits for
  the exit, so on a process that never exits it does not return (\<open>None\<close>).
\<close>

datatype proc = Exits rat int string string | Hangs | Cannot_start string

datatype run_outcome = Completed int string string rat | TimeoutExpired | Raised string

fun subprocess_run :: "rat option \<Rightarrow> proc \<Rightarrow> run_outcome option" where
  "subprocess_run timeout (Exits d returncode out err) =
     (case timeout of
        None \<Rightarrow> Some (Completed returncode out err d)
      | Some t \<Rightarrow> if d \<le> t then Some (Completed returncode out err d) else Some TimeoutExpired)"
| "subprocess_run timeout Hangs =
     (case timeout of None \<Rightarrow> None | Some t \<Rightarrow> Some TimeoutExpired)"
| "subprocess_run timeout (Cannot_start msg) = Some (Raised msg)"

section \<open>Cleaning a response\<close>

text \<open>
  The loop \<open>for marker in [...]: if marker in response: response =
  response.split(marker)[0].strip()\<close> of \<open>chat.py\<close> and \<open>chat_advanced.py\<close>.
\<close>

fun clean_technical :: "string list \<Rightarrow> string \<Rightarrow> string" where
  "clean_technical [] response = response"
| "clean_technical (marker # markers) response =
     clean_technical markers
       (if str_in marker response then strip (hd (str_split response marker)) else response)"

declare clean_technical.simps [simp del]

text \<open>\<open>''.join(char for char in response if char.isprintable() or char in '\n\t')\<close>\<close>

definition keep_printable :: "string \<Rightarrow> string" where
  "keep_printable response = filter (\<lambda>char. isprintable char \<or> char \<in> set [newline, tab]) response"

section \<open>benchmarks/parallel_inference.py: the worker-pool strategies\<close>

definition strategies :: "string \<rightharpoonup> int \<times> int" where
  "strategies = [''balanced'' \<mapsto> (3, 4), ''concurrent'' \<mapsto> (6, 2), ''power'' \<mapsto> (2, 6)]"

text \<open>\<open>strategies.get(strategy, (3, 4))\<close>\<close>

definition strategy_config :: "string \<Rightarrow> int \<times> int" where
  "strategy_config strategy = (case strategies strategy of Some p \<Rightarrow> p | None \<Rightarrow> (3, 4))"

definition total_threads :: "string \<Rightarrow> int" where
  "total_threads strategy = (case strategy_config strategy of (max_workers, threads_per_worker) \<Rightarrow>
     max_workers * threads_per_worker)"

text \<open>The thread budget that \<open>parallel_inference\<close> prints after the slash.\<close>

definition reported_budget :: int where
  "reported_budget = 10"

text \<open>The configuration lines \<open>parallel_inference\<close> prints before it starts the pool.\<close>

definition parallel_inference_banner :: "string \<Rightarrow> nat \<Rightarrow> string list" where
  "parallel_inference_banner strategy n_prompts =
     (case strategy_config strategy of (max_workers, threads_per_worker) \<Rightarrow>
        [''   Strategy: '' @ strategy,
         ''   Workers: '' @ str_int max_workers,
         ''   Threads per worker: '' @ str_int threads_per_worker,
         ''   Total threads used: '' @ str_int (max_workers * threads_per_worker) @ ''/''
            @ str_int reported_budget,
         ''   Processing '' @ str_int (int n_prompts) @ '' prompts...''])"

section \<open>benchmarks/run_inference.py: thread auto-detection\<close>

type_synonym environ = "string \<rightharpoonup> string"

record 'f args =
  args_model :: string
  args_n_predict :: int
  args_threads :: int
  args_prompt :: string
  args_ctx_size :: int
  args_temperature :: 'f
  args_conversation :: bool

text \<open>What \<open>run_inference\<close> hands to \<open>run_command\<close>: the argument namespace and the process
  environment as they are at that moment, and the command line.\<close>

record 'f launch =
  l_args :: "'f args"
  l_environ :: environ
  l_command :: "string list"

text \<open>
  \<open>cpu_count\<close> is \<open>multiprocessing.cpu_count()\<close>, \<open>windows\<close> is
  \<open>platform.system() == "Windows"\<close> (where \<open>os.path.join\<close> joins with a backslash),
  \<open>release_exists\<close> is \<open>os.path.exists\<close> of the Release binary, and \<open>str_float\<close> is
  \<open>str\<close> on floating-point numbers. The function mutates the global \<open>args\<close> and
  \<open>os.environ\<close>; both are passed in and returned as they are when the binary is launched.
\<close>

definition path_join :: "bool \<Rightarrow> string list \<Rightarrow> string" where
  "path_join windows parts = join (if windows then [CHR 0x5C] else ''/'') parts"

definition run_inference ::
  "('f \<Rightarrow> string) \<Rightarrow> int \<Rightarrow> bool \<Rightarrow> bool \<Rightarrow> 'f args \<Rightarrow> environ \<Rightarrow> 'f launch" where
  "run_inference str_float cpu_count windows release_exists a0 env0 =
     (case (if args_threads a0 \<le> 0 then
              (let optimal_threads = min cpu_count 10;
                   env1 = env0(''OMP_NUM_THREADS'' \<mapsto> str_int optimal_threads);
                   env2 = env1(''MKL_NUM_THREADS'' \<mapsto> str_int optimal_threads);
                   env3 = env2(''OPENBLAS_NUM_THREADS'' \<mapsto> str_int optimal_threads)
               in (a0\<lparr>args_threads := optimal_threads\<rparr>, env3))
            else (a0, env0)) of
        (a, env) \<Rightarrow>
          (let build_dir = ''build'';
               main_path =
                 (if windows then
                    (if \<not> release_exists then path_join windows [build_dir, ''bin'', ''llama-cli'']
                     else path_join windows [build_dir, ''bin'', ''Release'', ''llama-cli.exe''])
                  else path_join windows [build_dir, ''bin'', ''llama-cli'']);
               command = [main_path,
                          ''-m'', args_model a,
                          ''-n'', str_int (args_n_predict a),
                          ''-t'', str_int (args_threads a),
                          ''-p'', args_prompt a,
                          ''-ngl'', ''0'',
                          ''-c'', str_int (args_ctx_size a),
                          ''--temp'', str_float (args_temperature a),
                          ''-b'', ''1''];
               command = (if args_conversation a then command @ [''-cnv''] else command)
           in \<lparr>l_args = a, l_environ = env, l_command = command\<rparr>))"

section \<open>chat/chat_advanced.py\<close>

text \<open>
  The transcript holds \<open>(role, message, timestamp)\<close> entries whose role is one of the two
  strings "user" and "assistant". Settings are a dictionary from names to numbers; a
  floating-point number is modelled by the rational number it denotes, and the parsers
  \<open>float\<close> and \<open>int\<close> and the printer \<open>str\<close> on floats are parameters of the model
  (\<open>py_float s = None\<close> when \<open>float(s)\<close> raises \<open>ValueError\<close>).
\<close>

datatype role = User | Assistant

definition capitalize :: "role \<Rightarrow> string" where
  "capitalize r = (case r of User \<Rightarrow> ''User'' | Assistant \<Rightarrow> ''Assistant'')"

datatype number = Int_value int | Float_value rat

definition str_number :: "(rat \<Rightarrow> string) \<Rightarrow> number \<Rightarrow> string" where
  "str_number str_float v = (case v of Int_value i \<Rightarrow> str_int i | Float_value x \<Rightarrow> str_float x)"

text \<open>
  What the session writes to the terminal, one event per group of \<open>print\<close> calls. The
  lines that start with a check mark or a cross are \<open>Ok_line\<close> and \<open>Error_line\<close> with the
  text after the sign.
\<close>

datatype event =
    Banner
  | Settings_table
  | Help_text
  | Goodbye
  | Cleared
  | Line string
  | Ok_line string
  | Error_line string
  | Response_shown string
  | Metrics_shown int rat rat
  | Exported string

record chat_advanced =
  model_path :: string
  conversation_history :: "(role \<times> string \<times> string) list"
  system_prompt :: string
  settings :: "string \<rightharpoonup> number"
  environ :: environ
  stdin :: "string list"
  printed :: "event list"
  calls :: nat

text \<open>The dictionary a generation returns; a key that is absent is \<open>None\<close>.\<close>

record gen_result =
  response :: string
  generation_time :: "rat option"
  tokens_per_second :: "rat option"
  token_count :: "int option"
  success :: bool

text \<open>\<open>__init__\<close>, given the process environment and the lines the user will type.\<close>

definition BitNetChatAdvanced_init :: "string \<Rightarrow> environ \<Rightarrow> string list \<Rightarrow> chat_advanced" where
  "BitNetChatAdvanced_init path env lines =
     (let sets = [''temperature'' \<mapsto> Float_value (7 / 10),
                  ''max_tokens'' \<mapsto> Int_value 200,
                  ''threads'' \<mapsto> Int_value 10,
                  ''top_k'' \<mapsto> Int_value 40,
                  ''top_p'' \<mapsto> Float_value (95 / 100),
                  ''repeat_penalty'' \<mapsto> Float_value (11 / 10)];
          env1 = env(''OMP_NUM_THREADS'' \<mapsto> str_int 10);
          env2 = env1(''MKL_NUM_THREADS'' \<mapsto> str_int 10)
      in \<lparr>model_path = path, conversation_history = [], system_prompt = ''You are a helpful AI assistant.'',
          settings = sets, environ = env2, stdin = lines, printed = [], calls = 0\<rparr>)"

definition emit :: "event \<Rightarrow> chat_advanced \<Rightarrow> chat_advanced" where
  "emit e st = st\<lparr>printed := printed st @ [e]\<rparr>"

text \<open>\<open>input(...)\<close>: the next line typed, or \<open>None\<close> for \<open>EOFError\<close>.\<close>

definition input :: "chat_advanced \<Rightarrow> (string \<times> chat_advanced) option" where
  "input st = (case stdin st of [] \<Rightarrow> None | l # ls \<Rightarrow> Some (l, st\<lparr>stdin := ls\<rparr>))"

text \<open>
  A method that reads from the terminal returns \<open>Inr\<close> of the state it leaves, or \<open>Inl\<close> of
  the state at the moment \<open>EOFError\<close> leaves it.
\<close>

definition press_enter :: "chat_advanced \<Rightarrow> chat_advanced + chat_advanced" where
  "press_enter st = (case input st of None \<Rightarrow> Inl st | Some (l, st') \<Rightarrow> Inr st')"

text \<open>\<open>s.lower()\<close> on the code points below 256.\<close>

definition lower_char :: "char \<Rightarrow> char" where
  "lower_char c =
     (let n = (of_char c :: nat) in
      if (65 \<le> n \<and> n \<le> 90) \<or> (192 \<le> n \<and> n \<le> 222 \<and> n \<noteq> 215) then char_of (n + 32) else c)"

definition lower :: "string \<Rightarrow> string" where
  "lower s = map lower_char s"

definition change_settings ::
  "(string \<Rightarrow> rat option) \<Rightarrow> (string \<Rightarrow> int option) \<Rightarrow> (rat \<Rightarrow> string)
    \<Rightarrow> chat_advanced \<Rightarrow> chat_advanced + chat_advanced" where
  "change_settings py_float py_int str_float st0 =
     (let st = emit Settings_table st0 in
      case input st of
        None \<Rightarrow> Inl st
      | Some (l, st) \<Rightarrow>
          (let setting = lower (strip l) in
           if setting = ''cancel'' \<or> setting = [] then Inr st
           else if setting = ''system_prompt'' then
             (case input (emit (Line (''Current: '' @ system_prompt st)) st) of
                None \<Rightarrow> Inl (emit (Line (''Current: '' @ system_prompt st)) st)
              | Some (l, st) \<Rightarrow>
                  (let new_value = strip l in
                   press_enter
                     (if new_value \<noteq> [] then
                        emit (Ok_line ''System prompt updated!'') (st\<lparr>system_prompt := new_value\<rparr>)
                      else st)))
           else (case settings st setting of
             Some current \<Rightarrow>
               (case input (emit (Line (''Current '' @ setting @ '': '' @ str_number str_float current)) st) of
                  None \<Rightarrow> Inl (emit (Line (''Current '' @ setting @ '': '' @ str_number str_float current)) st)
                | Some (l, st) \<Rightarrow>
                    (case (if setting \<in> set [''temperature'', ''top_p'', ''repeat_penalty'']
                           then map_option Float_value (py_float l) else map_option Int_value (py_int l)) of
                       Some new_value \<Rightarrow>
                         (let st = st\<lparr>settings := (settings st)(setting \<mapsto> new_value)\<rparr>;
                              st = (if setting = ''threads'' then
                                      st\<lparr>environ := (environ st)
                                           (''OMP_NUM_THREADS'' \<mapsto> str_number str_float new_value,
                                            ''MKL_NUM_THREADS'' \<mapsto> str_number str_float new_value)\<rparr>
                                    else st)
                          in press_enter
                               (emit (Ok_line (setting @ '' updated to ''
                                        @ str_number str_float new_value @ ''!'')) st))
                     | None \<Rightarrow> press_enter (emit (Error_line ''Invalid value!'') st)))
           | None \<Rightarrow> press_enter (emit (Error_line (''Unknown setting: '' @ setting)) st))))"

text \<open>\<open>export_conversation\<close> writes a file (recorded as an event) and waits for Enter.\<close>

definition export_conversation :: "string \<Rightarrow> chat_advanced \<Rightarrow> chat_advanced + chat_advanced" where
  "export_conversation format st =
     press_enter (emit (Exported (if format = ''json'' then ''json'' else ''md'')) st)"

definition show_help :: "chat_advanced \<Rightarrow> chat_advanced + chat_advanced" where
  "show_help st = press_enter (emit Help_text st)"

text \<open>\<open>xs[-n:]\<close> for \<open>n > 0\<close>.\<close>

definition last_n :: "nat \<Rightarrow> 'a list \<Rightarrow> 'a list" where
  "last_n n xs = drop (length xs - n) xs"

definition full_prompt_advanced :: "chat_advanced \<Rightarrow> string \<Rightarrow> string" where
  "full_prompt_advanced st prompt =
     (let context_messages =
            map (\<lambda>(role, msg, ts). capitalize role @ '': '' @ msg) (last_n 6 (conversation_history st));
          full_prompt = system_prompt st @ [newline, newline];
          full_prompt = (if context_messages \<noteq> [] then
                           full_prompt @ join [newline, newline] context_messages @ [newline, newline]
                         else full_prompt)
      in full_prompt @ ''User: '' @ prompt @ [newline, newline] @ ''Assistant:'')"

text \<open>
  \<open>generate_response\<close>, for the behaviour \<open>p\<close> of the engine on this invocation. The
  process runs under \<open>timeout=120\<close>. \<open>generation_time\<close> is the time the process took, and
  \<open>token_count\<close>, in the source \<open>int(len(response.split()) * 1.3)\<close>, is computed exactly.
\<close>

definition BitNetChatAdvanced_generate_response :: "proc \<Rightarrow> gen_result option" where
  "BitNetChatAdvanced_generate_response p =
     (case subprocess_run (Some 120) p of
        None \<Rightarrow> None
      | Some (Completed returncode out err elapsed) \<Rightarrow>
          Some (if returncode = 0 then
             (let output = out; assistant_marker = ''Assistant:'' in
              if str_in assistant_marker output then
                (let response_start = str_rfind output assistant_marker + int (length assistant_marker);
                     response = strip (slice_from output response_start);
                     response = clean_technical
                       [''build:'', ''main:'', ''llama_'', ''llm_'', ''warning:'', ''ggml_''] response;
                     response = keep_printable response;
                     perf_match = re_search (err @ out);
                     tokens_per_sec = (case perf_match of Some g \<Rightarrow> float_of_group g | None \<Rightarrow> 0);
                     token_count = (int (length (split_ws response)) * 13) div 10
                 in \<lparr>response = strip response, generation_time = Some elapsed,
                     tokens_per_second = Some tokens_per_sec, token_count = Some token_count,
                     success = True\<rparr>)
              else \<lparr>response = ''I couldn't generate a proper response. Please try again.'',
                    generation_time = None, tokens_per_second = None, token_count = None,
                    success = False\<rparr>)
           else \<lparr>response = ''Error generating response: '' @ take 200 err,
                 generation_time = None, tokens_per_second = None, token_count = None,
                 success = False\<rparr>)
      | Some TimeoutExpired \<Rightarrow>
          Some \<lparr>response = ''Response generation timed out. Try reducing max_tokens or simplifying your prompt.'',
                generation_time = None, tokens_per_second = None, token_count = None,
                success = False\<rparr>
      | Some (Raised msg) \<Rightarrow>
          Some \<lparr>response = ''Unexpected error: '' @ msg,
                generation_time = None, tokens_per_second = None, token_count = None,
                success = False\<rparr>)"

text \<open>\<open>format_response\<close>: the words of the text, refilled into lines of at most 80 columns.\<close>

fun fill_lines :: "string list \<Rightarrow> string list \<Rightarrow> string list \<Rightarrow> nat \<Rightarrow> string list \<times> string list" where
  "fill_lines [] lines current_line line_length = (lines, current_line)"
| "fill_lines (word # ws) lines current_line line_length =
     (if line_length + length word + 1 > 80 then
        fill_lines ws (lines @ [join '' '' current_line]) [word] (length word)
      else fill_lines ws lines (current_line @ [word]) (line_length + length word + 1))"

definition format_response :: "string \<Rightarrow> string" where
  "format_response text0 =
     (let text1 = join '' '' (split_ws text0);
          ws = split_ws text1
      in case fill_lines ws [] [] 0 of
           (lines, current_line) \<Rightarrow>
             join [newline] (if current_line \<noteq> [] then lines @ [join '' '' current_line] else lines))"

text \<open>\<open>s.split(maxsplit=1)\<close>\<close>

definition split_max1 :: "string \<Rightarrow> string list" where
  "split_max1 s =
     (let s1 = dropWhile isspace s in
      if s1 = [] then []
      else (let w = takeWhile (\<lambda>c. \<not> isspace c) s1;
                r = dropWhile isspace (dropWhile (\<lambda>c. \<not> isspace c) s1)
            in if r = [] then [w] else [w, r]))"

text \<open>
  One pass through the body of the \<open>while True\<close> loop of \<open>run\<close>. The result is \<open>None\<close> when the
  pass never ends, and otherwise the state after it with \<open>True\<close> when the loop goes on and
  \<open>False\<close> when it is left. \<open>engine n q\<close> is how the engine behaves on the \<open>n\<close>-th invocation,
  with the prompt \<open>q\<close>, and \<open>now n\<close> is the wall-clock time printed into the transcript then.
\<close>

definition after_dialog :: "chat_advanced + chat_advanced \<Rightarrow> bool \<times> chat_advanced" where
  "after_dialog r = (case r of Inl st \<Rightarrow> (False, emit Goodbye st) | Inr st \<Rightarrow> (True, emit Banner st))"

definition handle_command ::
  "(string \<Rightarrow> rat option) \<Rightarrow> (string \<Rightarrow> int option) \<Rightarrow> (rat \<Rightarrow> string)
    \<Rightarrow> string \<Rightarrow> chat_advanced \<Rightarrow> bool \<times> chat_advanced" where
  "handle_command py_float py_int str_float user_input st =
     (let parts = split_max1 user_input;
          command = lower (hd parts);
          args = (if length parts > 1 then parts ! 1 else [])
      in if command = ''/exit'' then (False, emit Goodbye st)
         else if command = ''/help'' then after_dialog (show_help st)
         else if command = ''/settings'' then
           after_dialog (change_settings py_float py_int str_float st)
         else if command = ''/clear'' then
           (True, emit Cleared (emit Banner (st\<lparr>conversation_history := []\<rparr>)))
         else if command = ''/save'' then after_dialog (export_conversation ''text'' st)
         else if command = ''/export'' then
           after_dialog (export_conversation
             (if args \<in> set [''json'', ''markdown''] then lower args else ''json'') st)
         else if command = ''/system'' then
           (if args \<noteq> [] then
              (True, emit (Ok_line ''System prompt updated!'') (st\<lparr>system_prompt := args\<rparr>))
            else (True, emit (Line (''Current: '' @ system_prompt st)) st))
         else if command = ''/temp'' then
           (case py_float args of
              Some v \<Rightarrow>
                (True, emit (Ok_line (''Temperature set to '' @ str_float v))
                         (st\<lparr>settings := (settings st)(''temperature'' \<mapsto> Float_value v)\<rparr>))
            | None \<Rightarrow> (True, emit (Error_line ''Invalid temperature value'') st))
         else if command = ''/tokens'' then
           (case py_int args of
              Some v \<Rightarrow>
                (True, emit (Ok_line (''Max tokens set to '' @ str_int v))
                         (st\<lparr>settings := (settings st)(''max_tokens'' \<mapsto> Int_value v)\<rparr>))
            | None \<Rightarrow> (True, emit (Error_line ''Invalid token count'') st))
         else (True, emit (Error_line (''Unknown command: '' @ command)) st))"

definition run_turn ::
  "(nat \<Rightarrow> string \<Rightarrow> proc) \<Rightarrow> (nat \<Rightarrow> string) \<Rightarrow> string \<Rightarrow> chat_advanced
    \<Rightarrow> (bool \<times> chat_advanced) option" where
  "run_turn engine now user_input st0 =
     (let p = engine (calls st0) (full_prompt_advanced st0 user_input);
          st = st0\<lparr>calls := Suc (calls st0)\<rparr>
      in case BitNetChatAdvanced_generate_response p of
           None \<Rightarrow> None
         | Some result \<Rightarrow>
             Some (True,
               if success result then
                 (let st = emit (Response_shown (format_response (response result))) st;
                      st = (if (case tokens_per_second result of Some x \<Rightarrow> x | None \<Rightarrow> 0) > 0 then
                              (case (token_count result, generation_time result,
                                     tokens_per_second result) of
                                 (Some n, Some t, Some x) \<Rightarrow> emit (Metrics_shown n t x) st
                               | other \<Rightarrow> st)
                            else st);
                      timestamp = now (calls st0);
                      st = st\<lparr>conversation_history :=
                             conversation_history st @ [(User, user_input, timestamp)]\<rparr>;
                      st = st\<lparr>conversation_history :=
                             conversation_history st @ [(Assistant, response result, timestamp)]\<rparr>
                  in st)
               else emit (Error_line (response result)) st))"

definition run_iteration ::
  "(string \<Rightarrow> rat option) \<Rightarrow> (string \<Rightarrow> int option) \<Rightarrow> (rat \<Rightarrow> string)
    \<Rightarrow> (nat \<Rightarrow> string \<Rightarrow> proc) \<Rightarrow> (nat \<Rightarrow> string) \<Rightarrow> chat_advanced
    \<Rightarrow> (bool \<times> chat_advanced) option" where
  "run_iteration py_float py_int str_float engine now st0 =
     (case input st0 of
        None \<Rightarrow> Some (False, emit Goodbye st0)
      | Some (l, st) \<Rightarrow>
          (let user_input = strip l in
           if user_input = [] then Some (True, st)
           else if prefix ''/'' user_input then
             Some (handle_command py_float py_int str_float user_input st)
           else run_turn engine now user_input st))"

text \<open>
  The loop itself. Every pass that goes on has read at least one line, and the input is a
  finite list of lines, at whose end \<open>input\<close> raises \<open>EOFError\<close> and the loop is left.
\<close>

lemma stdin_emit [simp]: "stdin (emit e st) = stdin st"
  by (simp add: emit_def)

lemma input_shorter: "input st = Some (l, st') \<Longrightarrow> length (stdin st') < length (stdin st)"
  by (auto simp: input_def split: list.splits)

lemma press_enter_stdin:
  "press_enter st = r \<Longrightarrow> length (stdin (case r of Inl s \<Rightarrow> s | Inr s \<Rightarrow> s)) \<le> length (stdin st)"
  by (auto simp: press_enter_def input_def split: list.splits option.splits)

lemma press_enter_Inr: "press_enter st = Inr st' \<Longrightarrow> length (stdin st') \<le> length (stdin st)"
  using press_enter_stdin [of st "Inr st'"] by simp

lemma press_enter_Inl: "press_enter st = Inl st' \<Longrightarrow> length (stdin st') \<le> length (stdin st)"
  using press_enter_stdin [of st "Inl st'"] by simp

lemma change_settings_Inr:
  "change_settings pfl pin sfl st = Inr st' \<Longrightarrow> length (stdin st') \<le> length (stdin st)"
  unfolding change_settings_def Let_def
  by (auto split: option.splits if_splits dest!: input_shorter press_enter_Inr)

lemma change_settings_Inl:
  "change_settings pfl pin sfl st = Inl st' \<Longrightarrow> length (stdin st') \<le> length (stdin st)"
  unfolding change_settings_def Let_def
  by (auto split: option.splits if_splits dest!: input_shorter press_enter_Inl)

lemma handle_command_stdin:
  "handle_command pfl pin sfl u st = (b, st') \<Longrightarrow> length (stdin st') \<le> length (stdin st)"
  unfolding handle_command_def Let_def after_dialog_def show_help_def export_conversation_def
  by (auto split: option.splits if_splits sum.splits
      dest!: change_settings_Inr change_settings_Inl press_enter_Inr press_enter_Inl)

lemma run_turn_stdin:
  "run_turn engine now u st = Some (b, st') \<Longrightarrow> stdin st' = stdin st"
  unfolding run_turn_def Let_def
  by (auto split: option.splits if_splits prod.splits)

lemma run_iteration_shorter:
  "run_iteration pfl pin sfl engine now st = Some (True, st')
    \<Longrightarrow> length (stdin st') < length (stdin st)"
  unfolding run_iteration_def Let_def
  by (auto split: option.splits if_splits dest!: input_shorter handle_command_stdin run_turn_stdin)

function run_loop ::
  "(string \<Rightarrow> rat option) \<Rightarrow> (string \<Rightarrow> int option) \<Rightarrow> (rat \<Rightarrow> string)
    \<Rightarrow> (nat \<Rightarrow> string \<Rightarrow> proc) \<Rightarrow> (nat \<Rightarrow> string) \<Rightarrow> chat_advanced
    \<Rightarrow> chat_advanced option" where
  "run_loop py_float py_int str_float engine now st =
     (case run_iteration py_float py_int str_float engine now st of
        None \<Rightarrow> None
      | Some (go_on, st') \<Rightarrow>
          if go_on then run_loop py_float py_int str_float engine now st' else Some st')"
  by pat_completeness auto
termination
  by (relation "measure (\<lambda>(pfl, pin, sfl, engine, now, st). length (stdin st))")
    (auto simp: run_iteration_shorter)

declare run_loop.simps [simp del]

definition BitNetChatAdvanced_run ::
  "(string \<Rightarrow> rat option) \<Rightarrow> (string \<Rightarrow> int option) \<Rightarrow> (rat \<Rightarrow> string)
    \<Rightarrow> (nat \<Rightarrow> string \<Rightarrow> proc) \<Rightarrow> (nat \<Rightarrow> string) \<Rightarrow> chat_advanced
    \<Rightarrow> chat_advanced option" where
  "BitNetChatAdvanced_run py_float py_int str_float engine now st =
     run_loop py_float py_int str_float engine now (emit Banner st)"

section \<open>chat/chat.py\<close>

text \<open>
  The first chat script keeps \<open>(role, message)\<close> pairs. Its fields carry the prefix \<open>bc\<close>
  here, since a record field is a constant of the whole theory.
\<close>

record bitnet_chat =
  bc_conversation_history :: "(role \<times> string) list"
  bc_system_prompt :: string
  bc_stdin :: "string list"
  bc_printed :: "event list"
  bc_calls :: nat

definition BitNetChat_init :: "string list \<Rightarrow> bitnet_chat" where
  "BitNetChat_init lines =
     \<lparr>bc_conversation_history = [], bc_system_prompt = ''You are a helpful AI assistant.'',
      bc_stdin = lines, bc_printed = [], bc_calls = 0\<rparr>"

definition bc_emit :: "event \<Rightarrow> bitnet_chat \<Rightarrow> bitnet_chat" where
  "bc_emit e st = st\<lparr>bc_printed := bc_printed st @ [e]\<rparr>"

definition bc_input :: "bitnet_chat \<Rightarrow> (string \<times> bitnet_chat) option" where
  "bc_input st = (case bc_stdin st of [] \<Rightarrow> None | l # ls \<Rightarrow> Some (l, st\<lparr>bc_stdin := ls\<rparr>))"

fun full_prompt_chat :: "string \<Rightarrow> (role \<times> string) list \<Rightarrow> string" where
  "full_prompt_chat full_prompt [] = full_prompt"
| "full_prompt_chat full_prompt ((role, message) # history) =
     full_prompt_chat
       (if role = User then full_prompt @ [newline, newline] @ ''User: '' @ message
        else full_prompt @ [newline, newline] @ ''Assistant: '' @ message) history"

text \<open>
  \<open>generate_response\<close> returns the pair \<open>(response, perf_info)\<close>; the process runs under
  \<open>timeout=60\<close>.
\<close>

definition BitNetChat_generate_response :: "proc \<Rightarrow> (string \<times> string) option" where
  "BitNetChat_generate_response p =
     (case subprocess_run (Some 60) p of
        None \<Rightarrow> None
      | Some (Completed returncode out err elapsed) \<Rightarrow>
          Some (if returncode = 0 then
             (let output = out;
                  response_start = str_find output ''Assistant:'' + int (length ''Assistant:'')
              in if response_start > int (length ''Assistant:'') - 1 then
                   (let response = strip (slice_from output response_start);
                        response = clean_technical
                          [''build:'', ''main:'', ''llama_'', ''llm_'', ''warning:''] response;
                        response = strip response;
                        response = keep_printable response;
                        perf_match = re_search (err @ out);
                        perf_info = (case perf_match of
                                       Some g \<Rightarrow> '' ['' @ g @ '' tok/s]''
                                     | None \<Rightarrow> [])
                    in (response, perf_info))
                 else (''I couldn't generate a response. Please try again.'', []))
           else (''Error: '' @ take 200 err, []))
      | Some TimeoutExpired \<Rightarrow>
          Some (''Response generation timed out. Please try a shorter prompt.'', [])
      | Some (Raised msg) \<Rightarrow> Some (''Error: '' @ msg, []))"

text \<open>
  How a pass through the loop of \<open>run\<close> ends: the loop goes on, it is left by \<open>break\<close>, or
  an exception leaves \<open>run\<close> (\<open>main\<close> then prints it and exits with status 1).
\<close>

datatype flow = Go_on | Left | Aborted

text \<open>\<open>save_conversation\<close> and \<open>change_system_prompt\<close>; both read from the terminal.\<close>

definition save_conversation :: "bitnet_chat \<Rightarrow> bitnet_chat + bitnet_chat" where
  "save_conversation st =
     (case bc_input (bc_emit (Exported ''txt'') st) of
        None \<Rightarrow> Inl (bc_emit (Exported ''txt'') st)
      | Some (l, st') \<Rightarrow> Inr st')"

definition change_system_prompt :: "bitnet_chat \<Rightarrow> bitnet_chat + bitnet_chat" where
  "change_system_prompt st0 =
     (let st = bc_emit (Line (''  '' @ bc_system_prompt st0)) st0 in
      case bc_input st of
        None \<Rightarrow> Inl st
      | Some (l, st) \<Rightarrow>
          (let new_prompt = strip l;
               st = (if new_prompt \<noteq> [] then
                       bc_emit (Ok_line ''System prompt updated!'') (st\<lparr>bc_system_prompt := new_prompt\<rparr>)
                     else bc_emit (Line ''System prompt unchanged.'') st)
           in case bc_input st of None \<Rightarrow> Inl st | Some (l, st') \<Rightarrow> Inr st'))"

definition bc_after_dialog :: "bitnet_chat + bitnet_chat \<Rightarrow> flow \<times> bitnet_chat" where
  "bc_after_dialog r = (case r of Inl st \<Rightarrow> (Aborted, st) | Inr st \<Rightarrow> (Go_on, bc_emit Banner st))"

definition BitNetChat_command :: "string \<Rightarrow> bitnet_chat \<Rightarrow> flow \<times> bitnet_chat" where
  "BitNetChat_command user_input st =
     (let command = lower user_input in
      if command = ''/exit'' then (Left, bc_emit Goodbye st)
      else if command = ''/clear'' then
        (Go_on, bc_emit Cleared (bc_emit Banner (st\<lparr>bc_conversation_history := []\<rparr>)))
      else if command = ''/help'' then (Go_on, bc_emit Banner st)
      else if command = ''/save'' then bc_after_dialog (save_conversation st)
      else if command = ''/system'' then bc_after_dialog (change_system_prompt st)
      else (Go_on, bc_emit (Error_line (''Unknown command: '' @ command)) st))"

text \<open>Lines 189 to 208 of the loop: one exchange with the engine.\<close>

definition BitNetChat_turn ::
  "(nat \<Rightarrow> string \<Rightarrow> proc) \<Rightarrow> string \<Rightarrow> bitnet_chat \<Rightarrow> (flow \<times> bitnet_chat) option" where
  "BitNetChat_turn engine user_input st0 =
     (let full_prompt = full_prompt_chat (bc_system_prompt st0) (last_n 5 (bc_conversation_history st0))
                          @ [newline, newline] @ ''User: '' @ user_input
                          @ [newline, newline] @ ''Assistant:'';
          p = engine (bc_calls st0) full_prompt;
          st = st0\<lparr>bc_calls := Suc (bc_calls st0)\<rparr>
      in case BitNetChat_generate_response p of
           None \<Rightarrow> None
         | Some (reply, perf_info) \<Rightarrow>
             (let st = bc_emit (Response_shown reply) st;
                  st = (if perf_info \<noteq> [] then bc_emit (Line (''Performance: '' @ perf_info)) st
                        else st);
                  st = st\<lparr>bc_conversation_history := bc_conversation_history st @ [(User, user_input)]\<rparr>;
                  st = st\<lparr>bc_conversation_history := bc_conversation_history st @ [(Assistant, reply)]\<rparr>;
                  st = (if length (bc_conversation_history st) > 20 then
                          st\<lparr>bc_conversation_history := last_n 20 (bc_conversation_history st)\<rparr>
                        else st)
              in Some (Go_on, st)))"

definition BitNetChat_iteration ::
  "(nat \<Rightarrow> string \<Rightarrow> proc) \<Rightarrow> bitnet_chat \<Rightarrow> (flow \<times> bitnet_chat) option" where
  "BitNetChat_iteration engine st0 =
     (case bc_input st0 of
        None \<Rightarrow> Some (Left, bc_emit Goodbye st0)
      | Some (l, st) \<Rightarrow>
          (let user_input = strip l in
           if user_input = [] then Some (Go_on, st)
           else if prefix ''/'' user_input then Some (BitNetChat_command user_input st)
           else BitNetChat_turn engine user_input st))"

lemma bc_stdin_emit [simp]: "bc_stdin (bc_emit e st) = bc_stdin st"
  by (simp add: bc_emit_def)

lemma bc_input_shorter:
  "bc_input st = Some (l, st') \<Longrightarrow> length (bc_stdin st') < length (bc_stdin st)"
  by (auto simp: bc_input_def split: list.splits)

lemma BitNetChat_command_stdin:
  "BitNetChat_command u st = (b, st') \<Longrightarrow> length (bc_stdin st') \<le> length (bc_stdin st)"
  unfolding BitNetChat_command_def Let_def bc_after_dialog_def save_conversation_def
    change_system_prompt_def
  by (auto split: option.splits if_splits sum.splits dest!: bc_input_shorter)

lemma BitNetChat_turn_stdin:
  "BitNetChat_turn engine u st = Some (b, st') \<Longrightarrow> bc_stdin st' = bc_stdin st"
  unfolding BitNetChat_turn_def Let_def
  by (auto split: option.splits if_splits prod.splits)

lemma BitNetChat_iteration_shorter:
  "BitNetChat_iteration engine st = Some (Go_on, st')
    \<Longrightarrow> length (bc_stdin st') < length (bc_stdin st)"
  unfolding BitNetChat_iteration_def Let_def
  by (auto split: option.splits if_splits
      dest!: bc_input_shorter BitNetChat_command_stdin BitNetChat_turn_stdin)

function BitNetChat_loop ::
  "(nat \<Rightarrow> string \<Rightarrow> proc) \<Rightarrow> bitnet_chat \<Rightarrow> (flow \<times> bitnet_chat) option" where
  "BitNetChat_loop engine st =
     (case BitNetChat_iteration engine st of
        None \<Rightarrow> None
      | Some (fl, st') \<Rightarrow> if fl = Go_on then BitNetChat_loop engine st' else Some (fl, st'))"
  by pat_completeness auto
termination
  by (relation "measure (\<lambda>(engine, st). length (bc_stdin st))")
    (auto simp: BitNetChat_iteration_shorter)

declare BitNetChat_loop.simps [simp del]

definition BitNetChat_run ::
  "(nat \<Rightarrow> string \<Rightarrow> proc) \<Rightarrow> bitnet_chat \<Rightarrow> (flow \<times> bitnet_chat) option" where
  "BitNetChat_run engine st = BitNetChat_loop engine (bc_emit Banner st)"

section \<open>chat/chat_streaming.py: the streaming extractor\<close>

record stream_state =
  response_started :: bool
  response_lines :: "string list"
  current_line :: string
  assistant_found :: bool
  tokens_count :: nat

definition tech_markers :: "string list" where
  "tech_markers = [''build:'', ''main:'', ''llama_'', ''llm_'', ''warning:'', ''ggml_'']"

text \<open>The first marker, in the order of the list, that occurs in the line.\<close>

fun first_marker :: "string list \<Rightarrow> string \<Rightarrow> string option" where
  "first_marker [] line = None"
| "first_marker (marker # markers) line =
     (if str_in marker line then Some marker else first_marker markers line)"

text \<open>
  The \<open>while True\<close> loop of \<open>extract_response_streaming\<close>, which reads the standard output of
  the process one character at a time. It returns the state when the loop is left and the
  text not read yet (empty unless the loop was left at a technical marker).
\<close>

fun read_loop :: "stream_state \<Rightarrow> string \<Rightarrow> stream_state \<times> string" where
  "read_loop st [] = (st, [])"
| "read_loop st (char # rest) =
     (let st = st\<lparr>current_line := current_line st @ [char]\<rparr>;
          st = (if \<not> assistant_found st \<and> str_in ''Assistant:'' (current_line st) then
                  (let st = st\<lparr>assistant_found := True\<rparr>;
                       parts = str_split (current_line st) ''Assistant:''
                   in if length parts > 1 then
                        st\<lparr>current_line := last parts, response_started := True\<rparr>
                      else st)
                else st)
      in if response_started st then
           (case first_marker tech_markers (current_line st) of
              Some marker \<Rightarrow>
                (let parts = str_split (current_line st) marker;
                     st = (if strip (hd parts) \<noteq> [] then
                             (let remaining = rstrip (hd parts) in
                              if remaining \<noteq> [] \<and> \<not> str_isspace remaining then
                                st\<lparr>response_lines := response_lines st @ [remaining]\<rparr>
                              else st)
                           else st)
                 in (st, rest))
            | None \<Rightarrow>
                (let st = (if isprintable char \<or> char \<in> set [newline, tab] then
                             (if char \<in> set [CHR '' '', newline, tab] then
                                st\<lparr>tokens_count := tokens_count st + 1\<rparr>
                              else st)
                           else st);
                     st = (if char = newline then
                             st\<lparr>response_lines := response_lines st @ [rstrip (current_line st)],
                                current_line := []\<rparr>
                           else st)
                 in read_loop st rest))
         else read_loop st rest)"

text \<open>
  \<open>extract_response_streaming\<close> for a process that exits after \<open>elapsed\<close> seconds having
  written \<open>out\<close> to its standard output and \<open>err\<close> to its standard error.
\<close>

definition BitNetStreamingChat_extract_response_streaming ::
  "rat \<Rightarrow> string \<Rightarrow> string \<Rightarrow> gen_result" where
  "BitNetStreamingChat_extract_response_streaming elapsed out err =
     (case read_loop \<lparr>response_started = False, response_lines = [], current_line = [],
                       assistant_found = False, tokens_count = 0\<rparr> out of
        (st, remaining_output) \<Rightarrow>
          (let response_lines =
                 (if strip (current_line st) \<noteq> [] \<and> response_started st then
                    response_lines st @ [rstrip (current_line st)]
                  else response_lines st);
               all_output = remaining_output @ err;
               perf_match = re_search all_output;
               tokens_per_sec = (case perf_match of Some g \<Rightarrow> float_of_group g | None \<Rightarrow> 0);
               full_response = strip (join [newline] response_lines);
               full_response = keep_printable full_response
           in \<lparr>response = full_response, generation_time = Some elapsed,
               tokens_per_second = Some tokens_per_sec,
               token_count = Some (int (tokens_count st)),
               success = (full_response \<noteq> [])\<rparr>))"

section \<open>benchmarks/benchmark_optimized.py and benchmarks/parallel_inference.py\<close>

text \<open>
  \<open>run_single_benchmark\<close> calls \<open>subprocess.run\<close> with no timeout and catches nothing: an
  exception leaves the function (\<open>Inl\<close>). Its parameters only shape the command line and the
  environment of the process, whose behaviour \<open>p\<close> is given.
\<close>

record bench_result =
  b_duration :: rat
  b_tokens_per_sec :: rat
  b_output :: string

definition run_single_benchmark :: "proc \<Rightarrow> (string + bench_result) option" where
  "run_single_benchmark p =
     (case subprocess_run None p of
        None \<Rightarrow> None
      | Some (Completed returncode out err elapsed) \<Rightarrow>
          (let output = out @ err;
               matches = re_findall output;
               tokens_per_sec = (if matches \<noteq> [] then float_of_group (last matches) else 0)
           in Some (Inr \<lparr>b_duration = elapsed, b_tokens_per_sec = tokens_per_sec,
                          b_output = output\<rparr>))
      | Some TimeoutExpired \<Rightarrow> Some (Inl ''TimeoutExpired'')
      | Some (Raised msg) \<Rightarrow> Some (Inl msg))"

text \<open>\<open>s.split(sep, 1)\<close> for a non-empty separator.\<close>

definition str_split1 :: "string \<Rightarrow> string \<Rightarrow> string list" where
  "str_split1 s sep =
     (if str_find s sep < 0 then [s]
      else [take (nat (str_find s sep)) s, drop (nat (str_find s sep) + length sep) s])"

record inference_result =
  inf_prompt :: string
  inf_output :: string
  inf_time :: rat
  inf_success :: bool
  inf_threads :: int

text \<open>
  \<open>run_single_inference\<close> runs the process under \<open>timeout=60\<close> and catches
  \<open>TimeoutExpired\<close> only. (With an empty prompt \<open>split\<close> raises \<open>ValueError\<close>.)
\<close>

definition run_single_inference ::
  "string \<Rightarrow> int \<Rightarrow> int \<Rightarrow> proc \<Rightarrow> (string + inference_result) option" where
  "run_single_inference prompt max_tokens threads_per_process p =
     (case subprocess_run (Some 60) p of
        None \<Rightarrow> None
      | Some (Completed returncode out err elapsed) \<Rightarrow>
          (if str_in prompt out \<and> prompt = [] then Some (Inl ''ValueError: empty separator'')
           else
             (let output = (if str_in prompt out then strip (str_split1 out prompt ! 1) else out)
              in Some (Inr \<lparr>inf_prompt = prompt, inf_output = take 200 output, inf_time = elapsed,
                             inf_success = (returncode = 0), inf_threads = threads_per_process\<rparr>)))
      | Some TimeoutExpired \<Rightarrow>
          Some (Inr \<lparr>inf_prompt = prompt, inf_output = ''Timeout'', inf_time = 60,
                      inf_success = False, inf_threads = threads_per_process\<rparr>)
      | Some (Raised msg) \<Rightarrow> Some (Inl msg))"

text \<open>The state a method leaves behind, whether it returns or \<open>EOFError\<close> leaves it.\<close>

definition state_after :: "'a + 'a \<Rightarrow> 'a" where
  "state_after r = (case r of Inl st \<Rightarrow> st | Inr st \<Rightarrow> st)"

section \<open>Occurrences of a substring\<close>

text \<open>
  The positions at which \<open>sub\<close> starts in \<open>s\<close>, in increasing order. The properties below
  speak of a delimiter that occurs exactly once: \<open>occurrences sub s = [i]\<close>.
\<close>

fun occurrences_from :: "string \<Rightarrow> string \<Rightarrow> nat \<Rightarrow> nat list" where
  "occurrences_from sub [] i = (if sub = [] then [i] else [])"
| "occurrences_from sub (c # cs) i =
     (if prefix sub (c # cs) then [i] else []) @ occurrences_from sub cs (Suc i)"

definition occurrences :: "string \<Rightarrow> string \<Rightarrow> nat list" where
  "occurrences sub s = occurrences_from sub s 0"

text \<open>
  The entries that a run of plain exchanges appends to the transcript of \<open>chat.py\<close>: for
  each line typed, the line (stripped) as the user's entry and the reply as the assistant's.
\<close>

fun exchanges :: "string list \<Rightarrow> string list \<Rightarrow> (role \<times> string) list" where
  "exchanges (l # ls) (r # rs) = [(User, strip l), (Assistant, r)] @ exchanges ls rs"
| "exchanges ls rs = []"

section \<open>Properties\<close>

lemma emit_fields [simp]:
  "settings (emit e st) = settings st"
  "environ (emit e st) = environ st"
  "system_prompt (emit e st) = system_prompt st"
  "conversation_history (emit e st) = conversation_history st"
  "printed (emit e st) = printed st @ [e]"
  "calls (emit e st) = calls st"
  by (simp_all add: emit_def)

text \<open>
  C8. Every named strategy (balanced, concurrent, power) asks for 12 threads in total,
  which is more than the budget of 10 that the configuration banner prints next to it:
  the banner of the balanced strategy reads "Total threads used: 12/10".
\<close>

theorem parallel_inference_total_threads_exceed_budget:
  "total_threads ''balanced'' = 12 \<and> total_threads ''concurrent'' = 12
   \<and> total_threads ''power'' = 12 \<and> \<not> (12 \<le> reported_budget)
   \<and> parallel_inference_banner ''balanced'' 6 ! 3 = ''   Total threads used: 12/10''"
  by (simp add: total_threads_def strategy_config_def strategies_def reported_budget_def
      parallel_inference_banner_def str_int_def digit_char_def)

text \<open>
  C9. When \<open>run_inference\<close> is called with a thread count that is not positive (the default
  is 0), the thread count becomes \<open>min(cpu_count, 10)\<close> and the three environment
  variables OMP_NUM_THREADS, MKL_NUM_THREADS and OPENBLAS_NUM_THREADS hold that number when
  the binary is launched with \<open>-t\<close> that number. A positive thread count is passed to
  \<open>-t\<close> as it is, and the environment is not touched: a variable that was unset stays unset.
\<close>

theorem run_inference_thread_count:
  "(args_threads a \<le> 0 \<longrightarrow>
       args_threads (l_args (run_inference sf cpu w re a env)) = min cpu 10
     \<and> l_environ (run_inference sf cpu w re a env) ''OMP_NUM_THREADS''
         = Some (str_int (min cpu 10))
     \<and> l_environ (run_inference sf cpu w re a env) ''MKL_NUM_THREADS''
         = Some (str_int (min cpu 10))
     \<and> l_environ (run_inference sf cpu w re a env) ''OPENBLAS_NUM_THREADS''
         = Some (str_int (min cpu 10))
     \<and> l_command (run_inference sf cpu w re a env) ! 5 = ''-t''
     \<and> l_command (run_inference sf cpu w re a env) ! 6 = str_int (min cpu 10))
   \<and> (0 < args_threads a \<longrightarrow>
       args_threads (l_args (run_inference sf cpu w re a env)) = args_threads a
     \<and> l_environ (run_inference sf cpu w re a env) = env
     \<and> l_command (run_inference sf cpu w re a env) ! 5 = ''-t''
     \<and> l_command (run_inference sf cpu w re a env) ! 6 = str_int (args_threads a))"
  by (simp add: run_inference_def Let_def)

theorem run_inference_thread_count_witness:
  "args_threads \<lparr>args_model = ''m.gguf'', args_n_predict = 128, args_threads = 0, args_prompt = ''hi'',
             args_ctx_size = 2048, args_temperature = (), args_conversation = False\<rparr> \<le> 0
   \<and> l_environ (run_inference (\<lambda>u. ''0.8'') 12 False False
        \<lparr>args_model = ''m.gguf'', args_n_predict = 128, args_threads = 0, args_prompt = ''hi'',
         args_ctx_size = 2048, args_temperature = (), args_conversation = False\<rparr> Map.empty) ''OMP_NUM_THREADS''
       = Some ''10''
   \<and> l_command (run_inference (\<lambda>u. ''0.8'') 12 False False
        \<lparr>args_model = ''m.gguf'', args_n_predict = 128, args_threads = 0, args_prompt = ''hi'',
         args_ctx_size = 2048, args_temperature = (), args_conversation = False\<rparr> Map.empty) ! 6 = ''10''
   \<and> 0 < args_threads \<lparr>args_model = ''m.gguf'', args_n_predict = 128, args_threads = 4, args_prompt = ''hi'',
             args_ctx_size = 2048, args_temperature = (), args_conversation = False\<rparr>
   \<and> l_environ (run_inference (\<lambda>u. ''0.8'') 12 False False
        \<lparr>args_model = ''m.gguf'', args_n_predict = 128, args_threads = 4, args_prompt = ''hi'',
         args_ctx_size = 2048, args_temperature = (), args_conversation = False\<rparr> Map.empty) = Map.empty
   \<and> l_command (run_inference (\<lambda>u. ''0.8'') 12 False False
        \<lparr>args_model = ''m.gguf'', args_n_predict = 128, args_threads = 4, args_prompt = ''hi'',
         args_ctx_size = 2048, args_temperature = (), args_conversation = False\<rparr> Map.empty) ! 6 = ''4''"
  using run_inference_thread_count [of "\<lparr>args_model = ''m.gguf'', args_n_predict = 128, args_threads = 0,
      args_prompt = ''hi'', args_ctx_size = 2048, args_temperature = (), args_conversation = False\<rparr>"
      "\<lambda>u. ''0.8''" 12 False False Map.empty]
    run_inference_thread_count [of "\<lparr>args_model = ''m.gguf'', args_n_predict = 128, args_threads = 4,
      args_prompt = ''hi'', args_ctx_size = 2048, args_temperature = (), args_conversation = False\<rparr>"
      "\<lambda>u. ''0.8''" 12 False False Map.empty]
  by (simp add: str_int_def digit_char_def)

subsection \<open>The performance pattern\<close>

lemma char_classes:
  "\<not> isdecimal (CHR ''.'')" "\<not> isdecimal (CHR ''t'')" "\<not> isspace (CHR ''t'')"
  "isspace c \<Longrightarrow> \<not> isdecimal c" "isspace c \<Longrightarrow> c \<noteq> CHR ''.''"
  by (auto simp: isdecimal_def isspace_def)

lemma takeWhile_all:
  assumes "list_all P xs" and "ys = [] \<or> \<not> P (hd ys)"
  shows "takeWhile P (xs @ ys) = xs" and "dropWhile P (xs @ ys) = ys"
proof -
  have "takeWhile P ys = []" and "dropWhile P ys = ys"
    using assms(2) by (cases ys; auto)+
  with assms(1) show "takeWhile P (xs @ ys) = xs" and "dropWhile P (xs @ ys) = ys"
    by (simp_all add: list_all_iff takeWhile_append2 dropWhile_append2)
qed

lemma match_number_sound:
  assumes "match_number s = Some (g, r)"
  shows "\<exists>d1 dot d2. s = d1 @ dot @ d2 @ r \<and> g = d1 @ dot @ d2 \<and> d1 \<noteq> []
           \<and> list_all isdecimal d1 \<and> (dot = [] \<or> dot = ''.'') \<and> list_all isdecimal d2"
proof -
  define d1 r1 where "d1 = takeWhile isdecimal s" and "r1 = dropWhile isdecimal s"
  have s: "s = d1 @ r1"
    by (simp add: d1_def r1_def)
  have mn: "match_number s =
     (if d1 = [] then None
      else (case r1 of
              [] \<Rightarrow> Some (d1, [])
            | c # r2 \<Rightarrow>
                if c = CHR ''.'' then Some (d1 @ [c] @ takeWhile isdecimal r2, dropWhile isdecimal r2)
                else Some (d1, r1)))"
    unfolding d1_def r1_def match_number_def Let_def by (rule refl)
  have d1: "d1 \<noteq> []"
    using assms mn by (auto split: if_splits)
  have all: "list_all isdecimal d1"
    by (auto simp: d1_def list_all_iff dest: set_takeWhileD)
  consider "r1 = []" | r2 where "r1 = CHR ''.'' # r2" | c r2 where "r1 = c # r2" "c \<noteq> CHR ''.''"
    by (cases r1) auto
  then show ?thesis
  proof cases
    case 1
    with assms mn d1 have "g = d1" "r = []"
      by simp_all
    with s 1 d1 all have "s = d1 @ [] @ [] @ r \<and> g = d1 @ [] @ [] \<and> d1 \<noteq> []
        \<and> list_all isdecimal d1 \<and> ([] = [] \<or> [] = ''.'') \<and> list_all isdecimal []"
      by simp
    then show ?thesis by blast
  next
    case 2
    with assms mn d1 have g: "g = d1 @ ''.'' @ takeWhile isdecimal r2"
      and r: "r = dropWhile isdecimal r2"
      by simp_all
    have "s = d1 @ ''.'' @ takeWhile isdecimal r2 @ r"
      using s 2 r by simp
    moreover have "list_all isdecimal (takeWhile isdecimal r2)"
      by (auto simp: list_all_iff dest: set_takeWhileD)
    ultimately have "s = d1 @ ''.'' @ takeWhile isdecimal r2 @ r
        \<and> g = d1 @ ''.'' @ takeWhile isdecimal r2 \<and> d1 \<noteq> []
        \<and> list_all isdecimal d1 \<and> (''.'' = [] \<or> ''.'' = ''.'')
        \<and> list_all isdecimal (takeWhile isdecimal r2)"
      using g d1 all by simp
    then show ?thesis by blast
  next
    case 3
    with assms mn d1 have "g = d1" "r = r1"
      by simp_all
    with s d1 all have "s = d1 @ [] @ [] @ r \<and> g = d1 @ [] @ [] \<and> d1 \<noteq> []
        \<and> list_all isdecimal d1 \<and> ([] = [] \<or> [] = ''.'') \<and> list_all isdecimal []"
      by simp
    then show ?thesis by blast
  qed
qed

lemma match_number_complete:
  assumes "d1 \<noteq> []" "list_all isdecimal d1" "dot = [] \<or> dot = ''.''" "list_all isdecimal d2"
    and "r \<noteq> []" "\<not> isdecimal (hd r)" "hd r \<noteq> CHR ''.''"
  shows "match_number (d1 @ dot @ d2 @ r) = Some (d1 @ dot @ d2, r)"
proof (cases "dot = []")
  case True
  have all: "list_all isdecimal (d1 @ d2)"
    using assms by simp
  from takeWhile_all [OF all, of r] assms(5,6)
  have "takeWhile isdecimal ((d1 @ d2) @ r) = d1 @ d2" "dropWhile isdecimal ((d1 @ d2) @ r) = r"
    by simp_all
  then show ?thesis
    using True assms(1,5,7) by (cases r) (auto simp: match_number_def Let_def)
next
  case False
  with assms(3) have dot: "dot = ''.''" by simp
  from takeWhile_all [OF assms(2), of "''.'' @ d2 @ r"]
  have 1: "takeWhile isdecimal (d1 @ ''.'' @ d2 @ r) = d1"
    "dropWhile isdecimal (d1 @ ''.'' @ d2 @ r) = ''.'' @ d2 @ r"
    by (simp_all add: char_classes)
  from takeWhile_all [OF assms(4), of r] assms(5,6)
  have 2: "takeWhile isdecimal (d2 @ r) = d2" "dropWhile isdecimal (d2 @ r) = r"
    by simp_all
  show ?thesis
    using assms(1) 1 2 unfolding dot by (simp add: match_number_def Let_def)
qed

text \<open>
  At a given start position the regular expression matches in at most one way, and
  \<open>match_at\<close> finds that match: the order in which a backtracking matcher tries the
  alternatives does not matter.
\<close>

theorem match_at_iff_pattern: "match_at s = Some (g, r) \<longleftrightarrow> pattern_matches s g r"
proof
  assume m: "match_at s = Some (g, r)"
  then obtain r0 where n: "match_number s = Some (g, r0)"
    and p: "prefix ''tokens per second'' (dropWhile isspace r0)"
    and r: "r = drop (length ''tokens per second'') (dropWhile isspace r0)"
    by (auto simp: match_at_def Let_def split: option.splits if_splits)
  from match_number_sound [OF n] obtain d1 dot d2 where
    d: "s = d1 @ dot @ d2 @ r0" "g = d1 @ dot @ d2" "d1 \<noteq> []" "list_all isdecimal d1"
       "dot = [] \<or> dot = ''.''" "list_all isdecimal d2"
    by blast
  have "dropWhile isspace r0 = ''tokens per second'' @ r"
    using p r by (metis append_eq_conv_conj prefix_def)
  then have "r0 = takeWhile isspace r0 @ ''tokens per second'' @ r"
    by (metis takeWhile_dropWhile_id)
  moreover have "list_all isspace (takeWhile isspace r0)"
    by (auto simp: list_all_iff dest: set_takeWhileD)
  ultimately show "pattern_matches s g r"
    unfolding pattern_matches_def using d by metis
next
  assume "pattern_matches s g r"
  then obtain d1 dot d2 ws where
    d: "s = d1 @ dot @ d2 @ ws @ ''tokens per second'' @ r" "g = d1 @ dot @ d2" "d1 \<noteq> []"
       "list_all isdecimal d1" "dot = [] \<or> dot = ''.''" "list_all isdecimal d2"
       "list_all isspace ws"
    unfolding pattern_matches_def by blast
  let ?r0 = "ws @ ''tokens per second'' @ r"
  have hd: "\<not> isdecimal (hd ?r0)" "hd ?r0 \<noteq> CHR ''.''" "?r0 \<noteq> []"
    using d(7) by (cases ws; simp add: char_classes)+
  have n: "match_number s = Some (g, ?r0)"
    unfolding d(1,2) using d(3-6) hd by (intro match_number_complete) auto
  from takeWhile_all [OF d(7), of "''tokens per second'' @ r"]
  have "dropWhile isspace ?r0 = ''tokens per second'' @ r"
    by (simp add: char_classes)
  then show "match_at s = Some (g, r)"
    using n by (simp add: match_at_def Let_def)
qed


lemma match_at_Nil [simp]: "match_at [] = None"
  by (simp add: match_at_def match_number_def)

text \<open>
  \<open>re_search\<close> returns group 1 of the match at the leftmost position where the pattern
  matches.
\<close>

theorem re_search_leftmost:
  "re_search s = Some g \<longleftrightarrow>
     (\<exists>i r. i < length s \<and> match_at (drop i s) = Some (g, r)
            \<and> (\<forall>j < i. match_at (drop j s) = None))"
proof (induction s)
  case Nil
  then show ?case by simp
next
  case (Cons c cs)
  show ?case
  proof (cases "match_at (c # cs)")
    case (Some a)
    obtain g0 r0 where a: "a = (g0, r0)" by (cases a)
    have "(\<exists>i r. i < length (c # cs) \<and> match_at (drop i (c # cs)) = Some (g, r)
            \<and> (\<forall>j < i. match_at (drop j (c # cs)) = None)) \<longleftrightarrow> g = g0"
    proof
      assume "\<exists>i r. i < length (c # cs) \<and> match_at (drop i (c # cs)) = Some (g, r)
            \<and> (\<forall>j < i. match_at (drop j (c # cs)) = None)"
      then obtain i r where i: "match_at (drop i (c # cs)) = Some (g, r)"
        "\<forall>j < i. match_at (drop j (c # cs)) = None"
        by blast
      have "i = 0"
      proof (rule ccontr)
        assume "i \<noteq> 0"
        with i(2) have "match_at (drop 0 (c # cs)) = None" by blast
        with Some show False by simp
      qed
      with i(1) Some a show "g = g0" by simp
    next
      assume "g = g0"
      with Some a have "0 < length (c # cs) \<and> match_at (drop 0 (c # cs)) = Some (g, r0)
            \<and> (\<forall>j < 0. match_at (drop j (c # cs)) = None)"
        by simp
      then show "\<exists>i r. i < length (c # cs) \<and> match_at (drop i (c # cs)) = Some (g, r)
            \<and> (\<forall>j < i. match_at (drop j (c # cs)) = None)"
        by blast
    qed
    moreover have "re_search (c # cs) = Some g0"
      using Some a by simp
    moreover have "Some g0 = Some g \<longleftrightarrow> g = g0"
      by auto
    ultimately show ?thesis
      by (simp only:)
  next
    case None
    have "(\<exists>i r. i < length (c # cs) \<and> match_at (drop i (c # cs)) = Some (g, r)
            \<and> (\<forall>j < i. match_at (drop j (c # cs)) = None))
       \<longleftrightarrow> (\<exists>i r. i < length cs \<and> match_at (drop i cs) = Some (g, r)
            \<and> (\<forall>j < i. match_at (drop j cs) = None))"
    proof
      assume "\<exists>i r. i < length (c # cs) \<and> match_at (drop i (c # cs)) = Some (g, r)
            \<and> (\<forall>j < i. match_at (drop j (c # cs)) = None)"
      then obtain i r where i: "i < length (c # cs)" "match_at (drop i (c # cs)) = Some (g, r)"
        "\<forall>j < i. match_at (drop j (c # cs)) = None"
        by blast
      with None obtain k where k: "i = Suc k"
        by (cases i) auto
      have "\<forall>j < k. match_at (drop j cs) = None"
      proof (intro allI impI)
        fix j assume "j < k"
        then have "Suc j < i" using k by simp
        with i(3) have "match_at (drop (Suc j) (c # cs)) = None" by blast
        then show "match_at (drop j cs) = None" by simp
      qed
      with i k show "\<exists>i r. i < length cs \<and> match_at (drop i cs) = Some (g, r)
            \<and> (\<forall>j < i. match_at (drop j cs) = None)"
        by auto
    next
      assume "\<exists>i r. i < length cs \<and> match_at (drop i cs) = Some (g, r)
            \<and> (\<forall>j < i. match_at (drop j cs) = None)"
      then obtain i r where i: "i < length cs" "match_at (drop i cs) = Some (g, r)"
        "\<forall>j < i. match_at (drop j cs) = None"
        by blast
      have "\<forall>j < Suc i. match_at (drop j (c # cs)) = None"
      proof (intro allI impI)
        fix j assume j: "j < Suc i"
        show "match_at (drop j (c # cs)) = None"
        proof (cases j)
          case 0
          with None show ?thesis by simp
        next
          case (Suc j')
          with j i(3) show ?thesis by simp
        qed
      qed
      with i have "Suc i < length (c # cs) \<and> match_at (drop (Suc i) (c # cs)) = Some (g, r)
            \<and> (\<forall>j < Suc i. match_at (drop j (c # cs)) = None)"
        by simp
      then show "\<exists>i r. i < length (c # cs) \<and> match_at (drop i (c # cs)) = Some (g, r)
            \<and> (\<forall>j < i. match_at (drop j (c # cs)) = None)"
        by blast
    qed
    with None Cons.IH show ?thesis by simp
  qed
qed

theorem re_search_leftmost_witness:
  "match_at (drop 2 ''x 5 tokens per second'') = Some (''5'', [])
   \<and> match_at (drop 0 ''x 5 tokens per second'') = None
   \<and> match_at (drop 1 ''x 5 tokens per second'') = None
   \<and> re_search ''x 5 tokens per second'' = Some ''5''"
proof -
  let ?s = "''x 5 tokens per second''"
  have m2: "match_at (drop 2 ?s) = Some (''5'', [])"
    by code_simp
  have m0: "match_at (drop 0 ?s) = None"
    by code_simp
  have m1: "match_at (drop 1 ?s) = None"
    by code_simp
  have "\<forall>j < 2. match_at (drop j ?s) = None"
  proof (intro allI impI)
    fix j :: nat assume "j < 2"
    then consider "j = 0" | "j = 1" by linarith
    then show "match_at (drop j ?s) = None"
      using m0 m1 by cases simp_all
  qed
  then have "\<exists>i r. i < length ?s \<and> match_at (drop i ?s) = Some (''5'', r)
            \<and> (\<forall>j < i. match_at (drop j ?s) = None)"
    using m2 by (intro exI [of _ 2] exI [of _ "[]"]) simp
  then have "re_search ?s = Some ''5''"
    using re_search_leftmost [of ?s "''5''"] by blast
  with m0 m1 m2 show ?thesis
    by blast
qed

subsection \<open>Searching, trimming and cleaning\<close>

lemma find_from_occurrences:
  "find_from sub s i = (case occurrences_from sub s i of [] \<Rightarrow> - 1 | j # js \<Rightarrow> int j)"
  by (induction s arbitrary: i) auto

lemma rfind_from_occurrences:
  "rfind_from sub s i acc =
     (if occurrences_from sub s i = [] then acc else int (last (occurrences_from sub s i)))"
  by (induction s arbitrary: i acc) auto

lemma sublist_occurrences: "sublist sub s \<longleftrightarrow> occurrences_from sub s i \<noteq> []"
  by (induction s arbitrary: i) (auto simp: sublist_Cons_right)

lemma occurrences_from_shift:
  "occurrences_from sub s i = map (\<lambda>j. j + i) (occurrences_from sub s 0)"
proof (induction s arbitrary: i)
  case Nil
  then show ?case by simp
next
  case (Cons c cs)
  have "occurrences_from sub cs (Suc i) = map (\<lambda>j. j + Suc i) (occurrences_from sub cs 0)"
    by (rule Cons.IH)
  moreover have "occurrences_from sub cs (Suc 0) = map (\<lambda>j. j + Suc 0) (occurrences_from sub cs 0)"
    by (rule Cons.IH)
  ultimately show ?case by simp
qed

lemma occurrences_from_set:
  "set (occurrences_from sub s i) = {i + j | j. j \<le> length s \<and> prefix sub (drop j s)}"
proof (induction s arbitrary: i)
  case Nil
  then show ?case by auto
next
  case (Cons c cs)
  have "{i + j | j. j \<le> length (c # cs) \<and> prefix sub (drop j (c # cs))}
        = (if prefix sub (c # cs) then {i} else {})
          \<union> {Suc i + j | j. j \<le> length cs \<and> prefix sub (drop j cs)}"
    (is "?L = ?R")
  proof (intro set_eqI iffI)
    fix x assume "x \<in> ?L"
    then obtain j where j: "x = i + j" "j \<le> length (c # cs)" "prefix sub (drop j (c # cs))"
      by blast
    show "x \<in> ?R"
    proof (cases j)
      case 0
      with j show ?thesis by simp
    next
      case (Suc k)
      with j have "x = Suc i + k" "k \<le> length cs" "prefix sub (drop k cs)"
        by simp_all
      then show ?thesis by blast
    qed
  next
    fix x assume "x \<in> ?R"
    then consider "prefix sub (c # cs)" "x = i"
      | k where "x = Suc i + k" "k \<le> length cs" "prefix sub (drop k cs)"
      by (auto split: if_splits)
    then show "x \<in> ?L"
    proof cases
      case 1
      then have "x = i + 0 \<and> 0 \<le> length (c # cs) \<and> prefix sub (drop 0 (c # cs))"
        by simp
      then show ?thesis by blast
    next
      case 2
      then have "x = i + Suc k \<and> Suc k \<le> length (c # cs) \<and> prefix sub (drop (Suc k) (c # cs))"
        by simp
      then show ?thesis by blast
    qed
  qed
  with Cons.IH [of "Suc i"] show ?case
    by auto
qed

lemma occurrences_spec:
  "set (occurrences sub s) = {j. j \<le> length s \<and> prefix sub (drop j s)}"
  by (simp add: occurrences_def occurrences_from_set)

lemma rstrip_idem: "rstrip (rstrip s) = rstrip s"
  by (simp add: rstrip_def)

lemma rstrip_prefix: "prefix (rstrip s) s"
proof -
  have "rev s = takeWhile isspace (rev s) @ dropWhile isspace (rev s)"
    by simp
  then have "s = rev (dropWhile isspace (rev s)) @ rev (takeWhile isspace (rev s))"
    by (metis rev_append rev_rev_ident)
  then show ?thesis
    unfolding rstrip_def by (metis prefixI)
qed

lemma lstrip_rstrip:
  assumes "dropWhile isspace y = y"
  shows "dropWhile isspace (rstrip y) = rstrip y"
proof (cases "rstrip y")
  case Nil
  then show ?thesis by simp
next
  case (Cons c cs)
  with rstrip_prefix [of y] obtain zs where y: "y = c # zs"
    by (cases y) (auto simp: prefix_def)
  with assms have "\<not> isspace c"
    by (metis dropWhile_eq_Cons_conv)
  with Cons show ?thesis by simp
qed

lemma strip_idem: "strip (strip s) = strip s"
  unfolding strip_def by (simp add: lstrip_rstrip rstrip_idem)

lemma set_strip: "set (strip s) \<subseteq> set s"
  unfolding strip_def rstrip_def
  by (metis set_dropWhileD set_rev subsetI)

lemma sublist_strip: "sublist (strip s) s"
  unfolding strip_def rstrip_def
  by (metis sublist_dropWhile sublist_order.order.trans sublist_rev_left rev_rev_ident sublist_rev)

lemma clean_technical_id:
  "\<forall>m \<in> set markers. \<not> str_in m r \<Longrightarrow> clean_technical markers r = r"
  by (induction markers arbitrary: r) (auto simp: clean_technical.simps)

lemma keep_printable_id:
  "\<forall>c \<in> set r. isprintable c \<or> c = newline \<or> c = tab \<Longrightarrow> keep_printable r = r"
  by (auto simp: keep_printable_def filter_id_conv)


lemma no_marker_in_strip: "\<not> str_in m s \<Longrightarrow> \<not> str_in m (strip s)"
  unfolding str_in_def using sublist_strip sublist_order.order.trans by blast

lemma cleaned_response:
  assumes printable: "\<forall>c \<in> set body. isprintable c \<or> c = newline \<or> c = tab"
    and clean: "\<forall>m \<in> set markers. \<not> str_in m body"
  shows "keep_printable (clean_technical markers (strip body)) = strip body"
proof -
  have "clean_technical markers (strip body) = strip body"
    using clean by (intro clean_technical_id) (simp add: no_marker_in_strip)
  moreover have "keep_printable (strip body) = strip body"
    using printable set_strip [of body] by (intro keep_printable_id) blast
  ultimately show ?thesis by simp
qed

lemma single_occurrence:
  assumes "occurrences sub s = [i]"
  shows "str_in sub s" and "str_find s sub = int i" and "str_rfind s sub = int i"
proof -
  have occ: "occurrences_from sub s 0 = [i]"
    using assms by (simp add: occurrences_def)
  then have "occurrences_from sub s 0 \<noteq> []"
    by simp
  then show "str_in sub s"
    unfolding str_in_def using sublist_occurrences by blast
  show "str_find s sub = int i"
    by (simp add: str_find_def find_from_occurrences occ)
  show "str_rfind s sub = int i"
    by (simp add: str_rfind_def rfind_from_occurrences occ)
qed

subsection \<open>The text after the delimiter\<close>

text \<open>
  C4, as the code has it. When the process exits with code 0 in time and its standard output
  contains the delimiter "Assistant:" exactly once, followed by text that is printable (line
  feeds and tabs allowed) and that contains none of the technical markers build:, main:,
  llama_, llm_, warning: and ggml_, then \<open>generate_response\<close> of \<open>chat_advanced.py\<close> and of
  \<open>chat.py\<close> return exactly the text after the delimiter, trimmed of leading and trailing
  white space.
\<close>

theorem response_is_text_after_delimiter:
  assumes once: "occurrences ''Assistant:'' out = [i]"
    and printable: "\<forall>c \<in> set (drop (i + length ''Assistant:'') out).
                      isprintable c \<or> c = newline \<or> c = tab"
    and clean: "\<forall>m \<in> set [''build:'', ''main:'', ''llama_'', ''llm_'', ''warning:'', ''ggml_''].
                  \<not> str_in m (drop (i + length ''Assistant:'') out)"
  shows "(d \<le> 120 \<longrightarrow>
            map_option response (BitNetChatAdvanced_generate_response (Exits d 0 out err))
              = Some (strip (drop (i + length ''Assistant:'') out))
          \<and> map_option success (BitNetChatAdvanced_generate_response (Exits d 0 out err))
              = Some True)
       \<and> (d \<le> 60 \<longrightarrow>
            map_option fst (BitNetChat_generate_response (Exits d 0 out err))
              = Some (strip (drop (i + length ''Assistant:'') out)))"
proof -
  have len: "length ''Assistant:'' = 10"
    by simp
  let ?body = "drop (i + 10) out"
  note occ = single_occurrence [OF once]
  have adv: "keep_printable (clean_technical
               [''build:'', ''main:'', ''llama_'', ''llm_'', ''warning:'', ''ggml_''] (strip ?body))
             = strip ?body"
    using printable [unfolded len] clean [unfolded len] by (rule cleaned_response)
  have "\<forall>m \<in> set [''build:'', ''main:'', ''llama_'', ''llm_'', ''warning:''].
          \<not> str_in m ?body"
    using clean [unfolded len] by simp
  then have chat: "clean_technical
               [''build:'', ''main:'', ''llama_'', ''llm_'', ''warning:''] (strip ?body)
             = strip ?body"
    by (intro clean_technical_id) (simp add: no_marker_in_strip)
  have kp: "keep_printable (strip ?body) = strip ?body"
    using printable [unfolded len] set_strip [of ?body] by (intro keep_printable_id) blast
  have slice: "slice_from out (int i + 10) = ?body"
    by (simp add: slice_from_def nat_add_distrib)
  show ?thesis
    unfolding len BitNetChatAdvanced_generate_response_def BitNetChat_generate_response_def Let_def
    using occ adv chat kp slice
    by (simp add: strip_idem)
qed


theorem response_is_text_after_delimiter_witness:
  "occurrences ''Assistant:'' ''User: hi Assistant:  Paris is nice. '' = [9]
   \<and> list_all (\<lambda>c. isprintable c \<or> c = newline \<or> c = tab)
         (drop (9 + length ''Assistant:'') ''User: hi Assistant:  Paris is nice. '')
   \<and> list_all (\<lambda>m. \<not> str_in m (drop (9 + length ''Assistant:'') ''User: hi Assistant:  Paris is nice. ''))
         [''build:'', ''main:'', ''llama_'', ''llm_'', ''warning:'', ''ggml_'']
   \<and> map_option response
         (BitNetChatAdvanced_generate_response (Exits 1 0 ''User: hi Assistant:  Paris is nice. '' []))
       = Some ''Paris is nice.''
   \<and> map_option fst
         (BitNetChat_generate_response (Exits 1 0 ''User: hi Assistant:  Paris is nice. '' []))
       = Some ''Paris is nice.''"
proof -
  let ?out = "''User: hi Assistant:  Paris is nice. ''"
  have h1: "occurrences ''Assistant:'' ?out = [9]"
    by code_simp
  have h2: "\<forall>c \<in> set (drop (9 + length ''Assistant:'') ?out).
              isprintable c \<or> c = newline \<or> c = tab"
    by code_simp
  have h3: "\<forall>m \<in> set [''build:'', ''main:'', ''llama_'', ''llm_'', ''warning:'', ''ggml_''].
              \<not> str_in m (drop (9 + length ''Assistant:'') ?out)"
    by code_simp
  have s: "strip (drop (9 + length ''Assistant:'') ?out) = ''Paris is nice.''"
    by code_simp
  show ?thesis
    using response_is_text_after_delimiter [OF h1 h2 h3, of 1 "[]"] h1 h2 h3
    unfolding s by (simp add: list_all_iff)
qed

text \<open>
  Without the condition on the technical markers the statement fails: the output
  "Assistant: see llama_index docs" has the delimiter once, followed by printable text, and
  both scripts return "see", since the text is cut at the marker llama_.
\<close>

theorem response_cut_at_technical_marker:
  "occurrences ''Assistant:'' ''Assistant: see llama_index docs'' = [0]
   \<and> list_all isprintable (drop (0 + length ''Assistant:'') ''Assistant: see llama_index docs'')
   \<and> strip (drop (0 + length ''Assistant:'') ''Assistant: see llama_index docs'')
       = ''see llama_index docs''
   \<and> map_option response
         (BitNetChatAdvanced_generate_response (Exits 1 0 ''Assistant: see llama_index docs'' []))
       = Some ''see''
   \<and> map_option fst
         (BitNetChat_generate_response (Exits 1 0 ''Assistant: see llama_index docs'' []))
       = Some ''see''
   \<and> ''see'' \<noteq> ''see llama_index docs''"
  by code_simp

subsection \<open>A stream without the delimiter\<close>

lemma not_in_prefix:
  assumes "\<not> str_in m (xs @ c # ys)"
  shows "\<not> str_in m (xs @ [c])"
proof
  assume "str_in m (xs @ [c])"
  then have "sublist m ((xs @ [c]) @ ys)"
    unfolding str_in_def by (metis sublist_order.order.trans sublist_append_rightI)
  with assms show False
    by (simp add: str_in_def)
qed

lemma read_loop_without_delimiter:
  assumes "\<not> str_in ''Assistant:'' (current_line st @ s)" and "\<not> response_started st"
  shows "\<not> response_started (fst (read_loop st s))
       \<and> response_lines (fst (read_loop st s)) = response_lines st"
  using assms
proof (induction s arbitrary: st)
  case Nil
  then show ?case by simp
next
  case (Cons c cs)
  let ?st = "st\<lparr>current_line := current_line st @ [c]\<rparr>"
  have no: "\<not> str_in ''Assistant:'' (current_line st @ [c])"
    using Cons.prems(1) by (rule not_in_prefix)
  have step: "read_loop st (c # cs) = read_loop ?st cs"
    using no Cons.prems(2) by (simp add: Let_def)
  have "\<not> str_in ''Assistant:'' (current_line ?st @ cs)" and "\<not> response_started ?st"
    using Cons.prems by simp_all
  from Cons.IH [OF this] show ?case
    unfolding step by simp
qed

lemma strip_Nil [simp]: "strip [] = []"
  by (simp add: strip_def rstrip_def)

lemma keep_printable_Nil [simp]: "keep_printable [] = []"
  by (simp add: keep_printable_def)

text \<open>
  C2, as the code has it. When the delimiter "Assistant:" never appears in the output, the
  streaming extractor returns an empty response with \<open>success = False\<close>. The extractor of
  \<open>chat_advanced.py\<close> reports \<open>success = False\<close> as well, but with a message in place of
  the response, never the empty string; for a process that exits with code 0 in time the
  message is "I couldn't generate a proper response. Please try again.".
\<close>

theorem no_delimiter_no_response:
  assumes "\<not> str_in ''Assistant:'' out"
  shows "response (BitNetStreamingChat_extract_response_streaming elapsed out err) = []
       \<and> \<not> success (BitNetStreamingChat_extract_response_streaming elapsed out err)
       \<and> (\<exists>r. BitNetChatAdvanced_generate_response (Exits d returncode out err) = Some r
              \<and> \<not> success r \<and> response r \<noteq> [])
       \<and> (d \<le> 120 \<and> returncode = 0 \<longrightarrow>
            map_option response (BitNetChatAdvanced_generate_response (Exits d returncode out err))
              = Some ''I couldn't generate a proper response. Please try again.'')"
proof -
  let ?init = "\<lparr>response_started = False, response_lines = [], current_line = [],
                 assistant_found = False, tokens_count = 0\<rparr>"
  have "\<not> response_started (fst (read_loop ?init out))
       \<and> response_lines (fst (read_loop ?init out)) = response_lines ?init"
    using assms by (intro read_loop_without_delimiter) simp_all
  then have streaming:
    "response (BitNetStreamingChat_extract_response_streaming elapsed out err) = []
     \<and> \<not> success (BitNetStreamingChat_extract_response_streaming elapsed out err)"
    by (cases "read_loop ?init out")
      (simp add: BitNetStreamingChat_extract_response_streaming_def Let_def)
  have advanced:
    "\<exists>r. BitNetChatAdvanced_generate_response (Exits d returncode out err) = Some r
          \<and> \<not> success r \<and> response r \<noteq> []"
    using assms by (simp add: BitNetChatAdvanced_generate_response_def Let_def)
  have fallback: "d \<le> 120 \<and> returncode = 0 \<longrightarrow>
       map_option response (BitNetChatAdvanced_generate_response (Exits d returncode out err))
         = Some ''I couldn't generate a proper response. Please try again.''"
    using assms by (simp add: BitNetChatAdvanced_generate_response_def Let_def)
  from streaming advanced fallback show ?thesis
    by blast
qed

theorem no_delimiter_no_response_witness:
  "\<not> str_in ''Assistant:'' ''model failed to load''
   \<and> response (BitNetStreamingChat_extract_response_streaming 1 ''model failed to load'' []) = []
   \<and> success (BitNetStreamingChat_extract_response_streaming 1 ''model failed to load'' []) = False
   \<and> map_option response (BitNetChatAdvanced_generate_response (Exits 1 0 ''model failed to load'' []))
       = Some ''I couldn't generate a proper response. Please try again.''"
proof -
  have h: "\<not> str_in ''Assistant:'' ''model failed to load''"
    by code_simp
  show ?thesis
    using no_delimiter_no_response [OF h, of 1 "[]" 1 0] h by simp
qed

text \<open>
  The output "model failed to load" has no delimiter, and \<open>generate_response\<close> of
  \<open>chat_advanced.py\<close> answers with its fallback message, which is not empty.
\<close>

theorem no_delimiter_fallback_message:
  "\<not> str_in ''Assistant:'' ''model failed to load''
   \<and> map_option response (BitNetChatAdvanced_generate_response (Exits 1 0 ''model failed to load'' []))
       = Some ''I couldn't generate a proper response. Please try again.''
   \<and> map_option success (BitNetChatAdvanced_generate_response (Exits 1 0 ''model failed to load'' []))
       = Some False
   \<and> ''I couldn't generate a proper response. Please try again.'' \<noteq> []"
  by code_simp

subsection \<open>The success flag of the streaming extractor\<close>

text \<open>
  C10. For every output of the process, the streaming extractor sets \<open>success\<close> exactly when
  the cleaned response it returns is not empty.
\<close>

theorem streaming_success_iff_response:
  "success (BitNetStreamingChat_extract_response_streaming elapsed out err)
     \<longleftrightarrow> response (BitNetStreamingChat_extract_response_streaming elapsed out err) \<noteq> []"
  by (cases "read_loop \<lparr>response_started = False, response_lines = [], current_line = [],
                 assistant_found = False, tokens_count = 0\<rparr> out")
    (simp add: BitNetStreamingChat_extract_response_streaming_def Let_def)

subsection \<open>The end-to-end scenario\<close>

lemma generate_response_in_time:
  assumes "d \<le> 120"
  shows "map_option response (BitNetChatAdvanced_generate_response (Exits d rc out err))
           = map_option response (BitNetChatAdvanced_generate_response (Exits 0 rc out err))"
    and "map_option tokens_per_second (BitNetChatAdvanced_generate_response (Exits d rc out err))
           = map_option tokens_per_second (BitNetChatAdvanced_generate_response (Exits 0 rc out err))"
    and "map_option success (BitNetChatAdvanced_generate_response (Exits d rc out err))
           = map_option success (BitNetChatAdvanced_generate_response (Exits 0 rc out err))"
  using assms by (simp_all add: BitNetChatAdvanced_generate_response_def Let_def)

text \<open>
  C5. A process that exits with code 0 (within the timeout of 120 seconds), has printed
  "...Assistant: Paris is the capital." and, on the next line, "llama_perf: eval time = 10 ms
  / 5 tokens (2 ms per token, 50.00 tokens per second)", and has written nothing to its
  standard error: \<open>generate_response\<close> of \<open>chat_advanced.py\<close> returns the response "Paris is
  the capital." and 50 tokens per second, with \<open>success = True\<close>.
\<close>

theorem paris_scenario:
  "d \<le> 120 \<longrightarrow>
     map_option response (BitNetChatAdvanced_generate_response
       (Exits d 0 (''...Assistant: Paris is the capital.'' @ [newline] @
          ''llama_perf: eval time = 10 ms / 5 tokens (2 ms per token, 50.00 tokens per second)'') []))
       = Some ''Paris is the capital.''
   \<and> map_option tokens_per_second (BitNetChatAdvanced_generate_response
       (Exits d 0 (''...Assistant: Paris is the capital.'' @ [newline] @
          ''llama_perf: eval time = 10 ms / 5 tokens (2 ms per token, 50.00 tokens per second)'') []))
       = Some (Some 50)
   \<and> map_option success (BitNetChatAdvanced_generate_response
       (Exits d 0 (''...Assistant: Paris is the capital.'' @ [newline] @
          ''llama_perf: eval time = 10 ms / 5 tokens (2 ms per token, 50.00 tokens per second)'') []))
       = Some True"
proof
  let ?out = "(''...Assistant: Paris is the capital.'' @ [newline] @
          ''llama_perf: eval time = 10 ms / 5 tokens (2 ms per token, 50.00 tokens per second)'')"
  assume d: "d \<le> 120"
  have "BitNetChatAdvanced_generate_response (Exits 0 0 ?out [])
          = Some \<lparr>response = ''Paris is the capital.'', generation_time = Some 0,
                   tokens_per_second = Some 50, token_count = Some 5, success = True\<rparr>"
    by code_simp
  then show "map_option response (BitNetChatAdvanced_generate_response (Exits d 0 ?out []))
       = Some ''Paris is the capital.''
   \<and> map_option tokens_per_second (BitNetChatAdvanced_generate_response (Exits d 0 ?out []))
       = Some (Some 50)
   \<and> map_option success (BitNetChatAdvanced_generate_response (Exits d 0 ?out []))
       = Some True"
    using generate_response_in_time [OF d, of 0 ?out "[]"] by simp
qed

theorem paris_scenario_witness:
  "(1::rat) \<le> 120
   \<and> map_option response (BitNetChatAdvanced_generate_response
       (Exits 1 0 (''...Assistant: Paris is the capital.'' @ [newline] @
          ''llama_perf: eval time = 10 ms / 5 tokens (2 ms per token, 50.00 tokens per second)'') []))
       = Some ''Paris is the capital.''
   \<and> map_option tokens_per_second (BitNetChatAdvanced_generate_response
       (Exits 1 0 (''...Assistant: Paris is the capital.'' @ [newline] @
          ''llama_perf: eval time = 10 ms / 5 tokens (2 ms per token, 50.00 tokens per second)'') []))
       = Some (Some 50)"
  using paris_scenario [of 1] by simp

subsection \<open>Which performance line is reported\<close>

text \<open>
  C1 at a concrete output. The engine writes two performance lines to its standard error,
  500.00 tokens per second for the evaluation of the prompt and then 50.00 tokens per second
  for the generation. \<open>generate_response\<close> of \<open>chat_advanced.py\<close> takes the first match of
  the pattern (\<open>re.search\<close>) and reports 500, while \<open>run_single_benchmark\<close> takes the last
  one (\<open>re.findall\<close> and \<open>matches[-1]\<close>) and reports 50.
\<close>

theorem first_metric_in_chat_last_in_benchmark:
  "map_option tokens_per_second (BitNetChatAdvanced_generate_response
     (Exits 1 0 ''Assistant: Hello.''
        (''prompt eval time: 500.00 tokens per second'' @ [newline] @
         ''eval time: 50.00 tokens per second'')))
     = Some (Some 500)
   \<and> map_option (map_sum id b_tokens_per_sec) (run_single_benchmark
     (Exits 1 0 ''Assistant: Hello.''
        (''prompt eval time: 500.00 tokens per second'' @ [newline] @
         ''eval time: 50.00 tokens per second'')))
     = Some (Inr 50)"
  by code_simp

subsection \<open>The length of the transcript\<close>

text \<open>
  C3 at a concrete session of \<open>chat_advanced.py\<close>. The user types "hello" eleven times and
  the engine answers each time; the loop of \<open>run\<close> appends two entries per exchange and never
  truncates, so the transcript ends with 22 entries, more than 20.
\<close>

theorem advanced_history_grows:
  "map_option (\<lambda>st. length (conversation_history st))
     (BitNetChatAdvanced_run (\<lambda>s. None) (\<lambda>s. None) (\<lambda>x. ''0'')
        (\<lambda>n q. Exits 1 0 ''Assistant: ok'' []) (\<lambda>n. ''12:00:00'')
        (BitNetChatAdvanced_init ''m.gguf'' Map.empty (replicate 11 ''hello'')))
   = Some 22"
  by code_simp

text \<open>
  In general, an exchange of \<open>chat_advanced.py\<close> that succeeds appends the user's entry and
  the assistant's entry to the transcript and drops nothing.
\<close>

theorem run_turn_appends_without_truncating:
  "BitNetChatAdvanced_generate_response (engine (calls st) (full_prompt_advanced st u)) = Some r
     \<and> success r
   \<longrightarrow> (\<exists>st'. run_turn engine now u st = Some (True, st')
          \<and> conversation_history st'
              = conversation_history st
                @ [(User, u, now (calls st)), (Assistant, response r, now (calls st))])"
  by (auto simp: run_turn_def Let_def split: option.splits prod.splits)

theorem run_turn_appends_without_truncating_witness:
  "BitNetChatAdvanced_generate_response (Exits 1 0 ''Assistant: ok'' [])
     = Some \<lparr>response = ''ok'', generation_time = Some 1, tokens_per_second = Some 0,
             token_count = Some 1, success = True\<rparr>
   \<and> (\<exists>st'. run_turn (\<lambda>n q. Exits 1 0 ''Assistant: ok'' []) (\<lambda>n. ''12:00:00'') ''hello''
               (BitNetChatAdvanced_init ''m.gguf'' Map.empty []) = Some (True, st')
          \<and> conversation_history st'
              = [(User, ''hello'', ''12:00:00''), (Assistant, ''ok'', ''12:00:00'')])"
proof -
  have r: "BitNetChatAdvanced_generate_response (Exits 1 0 ''Assistant: ok'' [])
     = Some \<lparr>response = ''ok'', generation_time = Some 1, tokens_per_second = Some 0,
             token_count = Some 1, success = True\<rparr>"
    by code_simp
  have h: "conversation_history (BitNetChatAdvanced_init ''m.gguf'' Map.empty []) = []"
    by (simp add: BitNetChatAdvanced_init_def)
  from run_turn_appends_without_truncating
    [of "\<lambda>n q. Exits 1 0 ''Assistant: ok'' []" "BitNetChatAdvanced_init ''m.gguf'' Map.empty []"
        "''hello''" "\<lparr>response = ''ok'', generation_time = Some 1, tokens_per_second = Some 0,
             token_count = Some 1, success = True\<rparr>" "\<lambda>n. ''12:00:00''"] r h
  show ?thesis
    by simp
qed

subsection \<open>Changing a setting to a value that does not parse\<close>

lemma press_enter_fields [simp]:
  "settings (state_after (press_enter st)) = settings st"
  "environ (state_after (press_enter st)) = environ st"
  "system_prompt (state_after (press_enter st)) = system_prompt st"
  "conversation_history (state_after (press_enter st)) = conversation_history st"
  "printed (state_after (press_enter st)) = printed st"
  by (simp_all add: press_enter_def input_def state_after_def split: list.splits)

text \<open>
  C6. Let the setting be one of temperature, max_tokens, threads, top_k, top_p and
  repeat_penalty, present in the settings, and let the value typed not parse as the number the
  setting holds (\<open>float\<close> for temperature, top_p and repeat_penalty, \<open>int\<close> for the others).
  Then \<open>change_settings\<close> leaves the settings, the environment and the system prompt as they
  were and prints "Invalid value!". The same holds for the quick commands \<open>/temp\<close> and
  \<open>/tokens\<close> of \<open>run\<close>, which print "Invalid temperature value" and "Invalid token count",
  and after which the loop goes on.
\<close>

theorem invalid_setting_value_changes_nothing:
  "(stdin st = name_line # value_line # rest
      \<and> lower (strip name_line) = k
      \<and> k \<in> set [''temperature'', ''max_tokens'', ''threads'', ''top_k'', ''top_p'',
                   ''repeat_penalty'']
      \<and> settings st k = Some v
      \<and> (if k \<in> set [''temperature'', ''top_p'', ''repeat_penalty'']
          then py_float value_line = None else py_int value_line = None)
    \<longrightarrow> settings (state_after (change_settings py_float py_int str_float st)) = settings st
      \<and> environ (state_after (change_settings py_float py_int str_float st)) = environ st
      \<and> system_prompt (state_after (change_settings py_float py_int str_float st))
          = system_prompt st
      \<and> printed (state_after (change_settings py_float py_int str_float st))
          = printed st @ [Settings_table,
                          Line (''Current '' @ k @ '': '' @ str_number str_float v),
                          Error_line ''Invalid value!''])
   \<and> (lower (hd (split_max1 u)) = ''/temp''
      \<and> py_float (if length (split_max1 u) > 1 then split_max1 u ! 1 else []) = None
    \<longrightarrow> fst (handle_command py_float py_int str_float u st)
      \<and> settings (snd (handle_command py_float py_int str_float u st)) = settings st
      \<and> environ (snd (handle_command py_float py_int str_float u st)) = environ st
      \<and> printed (snd (handle_command py_float py_int str_float u st))
          = printed st @ [Error_line ''Invalid temperature value''])
   \<and> (lower (hd (split_max1 u)) = ''/tokens''
      \<and> py_int (if length (split_max1 u) > 1 then split_max1 u ! 1 else []) = None
    \<longrightarrow> fst (handle_command py_float py_int str_float u st)
      \<and> settings (snd (handle_command py_float py_int str_float u st)) = settings st
      \<and> environ (snd (handle_command py_float py_int str_float u st)) = environ st
      \<and> printed (snd (handle_command py_float py_int str_float u st))
          = printed st @ [Error_line ''Invalid token count''])"
proof (intro conjI impI)
  assume h: "stdin st = name_line # value_line # rest
      \<and> lower (strip name_line) = k
      \<and> k \<in> set [''temperature'', ''max_tokens'', ''threads'', ''top_k'', ''top_p'',
                   ''repeat_penalty'']
      \<and> settings st k = Some v
      \<and> (if k \<in> set [''temperature'', ''top_p'', ''repeat_penalty'']
          then py_float value_line = None else py_int value_line = None)"
  then have k: "k \<noteq> ''cancel''" "k \<noteq> []" "k \<noteq> ''system_prompt''"
    by auto
  have parse: "(if k \<in> set [''temperature'', ''top_p'', ''repeat_penalty'']
                then map_option Float_value (py_float value_line)
                else map_option Int_value (py_int value_line)) = None"
    using h by (simp split: if_splits)
  let ?st1 = "emit (Line (''Current '' @ k @ '': '' @ str_number str_float v))
                (emit Settings_table st\<lparr>stdin := value_line # rest\<rparr>)"
  let ?st2 = "emit (Error_line ''Invalid value!'') (?st1\<lparr>stdin := rest\<rparr>)"
  have "change_settings py_float py_int str_float st = press_enter ?st2"
    using h k parse unfolding change_settings_def Let_def input_def
    by (simp add: emit_def)
  then show "settings (state_after (change_settings py_float py_int str_float st)) = settings st"
    and "environ (state_after (change_settings py_float py_int str_float st)) = environ st"
    and "system_prompt (state_after (change_settings py_float py_int str_float st))
          = system_prompt st"
    and "printed (state_after (change_settings py_float py_int str_float st))
          = printed st @ [Settings_table,
                          Line (''Current '' @ k @ '': '' @ str_number str_float v),
                          Error_line ''Invalid value!'']"
    by simp_all
next
  assume "lower (hd (split_max1 u)) = ''/temp''
      \<and> py_float (if length (split_max1 u) > 1 then split_max1 u ! 1 else []) = None"
  then have "handle_command py_float py_int str_float u st
               = (True, emit (Error_line ''Invalid temperature value'') st)"
    by (simp add: handle_command_def Let_def)
  then show "fst (handle_command py_float py_int str_float u st)"
    and "settings (snd (handle_command py_float py_int str_float u st)) = settings st"
    and "environ (snd (handle_command py_float py_int str_float u st)) = environ st"
    and "printed (snd (handle_command py_float py_int str_float u st))
          = printed st @ [Error_line ''Invalid temperature value'']"
    by simp_all
next
  assume "lower (hd (split_max1 u)) = ''/tokens''
      \<and> py_int (if length (split_max1 u) > 1 then split_max1 u ! 1 else []) = None"
  then have "handle_command py_float py_int str_float u st
               = (True, emit (Error_line ''Invalid token count'') st)"
    by (simp add: handle_command_def Let_def)
  then show "fst (handle_command py_float py_int str_float u st)"
    and "settings (snd (handle_command py_float py_int str_float u st)) = settings st"
    and "environ (snd (handle_command py_float py_int str_float u st)) = environ st"
    and "printed (snd (handle_command py_float py_int str_float u st))
          = printed st @ [Error_line ''Invalid token count'']"
    by simp_all
qed


theorem invalid_setting_value_changes_nothing_witness:
  "stdin (BitNetChatAdvanced_init ''m.gguf'' Map.empty [''Temperature '', ''hot'', ''ok''])
     = [''Temperature '', ''hot'', ''ok'']
   \<and> lower (strip ''Temperature '') = ''temperature''
   \<and> settings (BitNetChatAdvanced_init ''m.gguf'' Map.empty [''Temperature '', ''hot'', ''ok''])
         ''temperature'' = Some (Float_value (7 / 10))
   \<and> settings (state_after (change_settings
         (\<lambda>s. if s = ''0.5'' then Some (1 / 2) else None) (\<lambda>s. if s = ''7'' then Some 7 else None)
         (\<lambda>x. ''0.7'')
         (BitNetChatAdvanced_init ''m.gguf'' Map.empty [''Temperature '', ''hot'', ''ok''])))
         ''temperature'' = Some (Float_value (7 / 10))
   \<and> printed (state_after (change_settings
         (\<lambda>s. if s = ''0.5'' then Some (1 / 2) else None) (\<lambda>s. if s = ''7'' then Some 7 else None)
         (\<lambda>x. ''0.7'')
         (BitNetChatAdvanced_init ''m.gguf'' Map.empty [''Temperature '', ''hot'', ''ok''])))
       = [Settings_table, Line ''Current temperature: 0.7'', Error_line ''Invalid value!'']
   \<and> lower (hd (split_max1 ''/temp hot'')) = ''/temp''
   \<and> settings (snd (handle_command
         (\<lambda>s. if s = ''0.5'' then Some (1 / 2) else None) (\<lambda>s. if s = ''7'' then Some 7 else None)
         (\<lambda>x. ''0.7'') ''/temp hot''
         (BitNetChatAdvanced_init ''m.gguf'' Map.empty [''Temperature '', ''hot'', ''ok''])))
         ''temperature'' = Some (Float_value (7 / 10))
   \<and> lower (hd (split_max1 ''/tokens many'')) = ''/tokens''
   \<and> settings (snd (handle_command
         (\<lambda>s. if s = ''0.5'' then Some (1 / 2) else None) (\<lambda>s. if s = ''7'' then Some 7 else None)
         (\<lambda>x. ''0.7'') ''/tokens many''
         (BitNetChatAdvanced_init ''m.gguf'' Map.empty [''Temperature '', ''hot'', ''ok''])))
         ''max_tokens'' = Some (Int_value 200)"
proof -
  let ?st = "BitNetChatAdvanced_init ''m.gguf'' Map.empty [''Temperature '', ''hot'', ''ok'']"
  let ?pf = "\<lambda>s. if s = ''0.5'' then Some (1 / 2 :: rat) else None"
  let ?pi = "\<lambda>s. if s = ''7'' then Some (7 :: int) else None"
  have a1: "stdin ?st = [''Temperature '', ''hot'', ''ok'']"
    by (simp add: BitNetChatAdvanced_init_def)
  have a2: "lower (strip ''Temperature '') = ''temperature''"
    by code_simp
  have a3: "settings ?st ''temperature'' = Some (Float_value (7 / 10))"
    by (simp add: BitNetChatAdvanced_init_def)
  have a4: "settings ?st ''max_tokens'' = Some (Int_value 200)"
    by (simp add: BitNetChatAdvanced_init_def)
  have b1: "split_max1 ''/temp hot'' = [''/temp'', ''hot'']"
    by code_simp
  have b2: "lower ''/temp'' = ''/temp''"
    by code_simp
  have c1: "split_max1 ''/tokens many'' = [''/tokens'', ''many'']"
    by code_simp
  have c2: "lower ''/tokens'' = ''/tokens''"
    by code_simp
  have a5: "printed ?st = []"
    by (simp add: BitNetChatAdvanced_init_def)
  note thm1 = invalid_setting_value_changes_nothing
      [of ?st "''Temperature ''" "''hot''" "[''ok'']" "''temperature''" "Float_value (7 / 10)"
          ?pf ?pi "\<lambda>x. ''0.7''" "''/temp hot''"]
  note thm2 = invalid_setting_value_changes_nothing
      [of ?st "''Temperature ''" "''hot''" "[''ok'']" "''temperature''" "Float_value (7 / 10)"
          ?pf ?pi "\<lambda>x. ''0.7''" "''/tokens many''"]
  have h1: "stdin ?st = ''Temperature '' # ''hot'' # [''ok'']
      \<and> lower (strip ''Temperature '') = ''temperature''
      \<and> ''temperature'' \<in> set [''temperature'', ''max_tokens'', ''threads'', ''top_k'', ''top_p'',
                   ''repeat_penalty'']
      \<and> settings ?st ''temperature'' = Some (Float_value (7 / 10))
      \<and> (if ''temperature'' \<in> set [''temperature'', ''top_p'', ''repeat_penalty'']
          then ?pf ''hot'' = None else ?pi ''hot'' = None)"
    using a1 a2 a3 by simp
  have h2: "lower (hd (split_max1 ''/temp hot'')) = ''/temp''
      \<and> ?pf (if length (split_max1 ''/temp hot'') > 1 then split_max1 ''/temp hot'' ! 1 else []) = None"
    by (simp add: b1 b2)
  have h3: "lower (hd (split_max1 ''/tokens many'')) = ''/tokens''
      \<and> ?pi (if length (split_max1 ''/tokens many'') > 1 then split_max1 ''/tokens many'' ! 1 else [])
          = None"
    by (simp add: c1 c2)
  from mp [OF conjunct1 [OF thm1] h1]
  have r1: "settings (state_after (change_settings ?pf ?pi (\<lambda>x. ''0.7'') ?st)) = settings ?st"
    and r2: "printed (state_after (change_settings ?pf ?pi (\<lambda>x. ''0.7'') ?st))
          = printed ?st @ [Settings_table,
               Line (''Current '' @ ''temperature'' @ '': '' @ str_number (\<lambda>x. ''0.7'') (Float_value (7 / 10))),
               Error_line ''Invalid value!'']"
    by blast+
  from mp [OF conjunct1 [OF conjunct2 [OF thm1]] h2]
  have r3: "settings (snd (handle_command ?pf ?pi (\<lambda>x. ''0.7'') ''/temp hot'' ?st)) = settings ?st"
    by blast
  from mp [OF conjunct2 [OF conjunct2 [OF thm2]] h3]
  have r4: "settings (snd (handle_command ?pf ?pi (\<lambda>x. ''0.7'') ''/tokens many'' ?st)) = settings ?st"
    by blast
  have r2': "printed (state_after (change_settings ?pf ?pi (\<lambda>x. ''0.7'') ?st))
          = [Settings_table, Line ''Current temperature: 0.7'', Error_line ''Invalid value!'']"
    unfolding r2 a5 by (simp add: str_number_def)
  show ?thesis
    unfolding r1 r2' r3 r4 using a1 a2 a3 a4 h2 h3 by blast
qed

subsection \<open>Timeouts\<close>

lemma subprocess_run_timeout_returns: "\<exists>oc. subprocess_run (Some t) p = Some oc"
  by (cases p) auto

lemma timeout_expired_iff:
  "subprocess_run (Some t) p = Some TimeoutExpired
     \<longleftrightarrow> p = Hangs \<or> (\<exists>d rc out err. p = Exits d rc out err \<and> t < d)"
  by (cases p) auto

text \<open>
  C7, as the code has it. \<open>generate_response\<close> of \<open>chat_advanced.py\<close> (timeout 120) and
  \<open>run_single_inference\<close> of \<open>parallel_inference.py\<close> (timeout 60) return whatever the
  process does, also when it never exits. When the timeout expires, \<open>generate_response\<close>
  returns \<open>success = False\<close> with the message "Response generation timed out. Try reducing
  max_tokens or simplifying your prompt.", which no other failure carries, the loop of
  \<open>run\<close> prints it and goes on with transcript and settings as they were, and
  \<open>run_single_inference\<close> returns \<open>success = False\<close> with the output "Timeout".
\<close>

theorem timeout_is_reported_and_session_goes_on:
  "(\<exists>r. BitNetChatAdvanced_generate_response p = Some r)
   \<and> (subprocess_run (Some 120) p = Some TimeoutExpired \<longrightarrow>
        BitNetChatAdvanced_generate_response p =
          Some \<lparr>response = ''Response generation timed out. Try reducing max_tokens or simplifying your prompt.'',
                generation_time = None, tokens_per_second = None, token_count = None,
                success = False\<rparr>)
   \<and> (BitNetChatAdvanced_generate_response p = Some r
        \<and> \<not> success r
        \<and> response r = ''Response generation timed out. Try reducing max_tokens or simplifying your prompt.''
        \<longrightarrow> subprocess_run (Some 120) p = Some TimeoutExpired)
   \<and> (subprocess_run (Some 120) p = Some TimeoutExpired
        \<and> stdin st = l # rest \<and> strip l \<noteq> [] \<and> \<not> prefix ''/'' (strip l)
        \<and> engine (calls st) (full_prompt_advanced (st\<lparr>stdin := rest\<rparr>) (strip l)) = p
        \<longrightarrow> run_iteration py_float py_int str_float engine now st =
              Some (True, emit (Error_line ''Response generation timed out. Try reducing max_tokens or simplifying your prompt.'')
                            (st\<lparr>stdin := rest, calls := Suc (calls st)\<rparr>)))
   \<and> (\<exists>r. run_single_inference prompt max_tokens threads_per_process p = Some r)
   \<and> (subprocess_run (Some 60) p = Some TimeoutExpired \<longrightarrow>
        run_single_inference prompt max_tokens threads_per_process p =
          Some (Inr \<lparr>inf_prompt = prompt, inf_output = ''Timeout'', inf_time = 60,
                      inf_success = False, inf_threads = threads_per_process\<rparr>))"
proof (intro conjI impI)
  show "\<exists>r. BitNetChatAdvanced_generate_response p = Some r"
    by (cases p) (auto simp: BitNetChatAdvanced_generate_response_def Let_def)
  show "\<exists>r. run_single_inference prompt max_tokens threads_per_process p = Some r"
    by (cases p) (auto simp: run_single_inference_def Let_def)
next
  assume "subprocess_run (Some 120) p = Some TimeoutExpired"
  then show "BitNetChatAdvanced_generate_response p =
          Some \<lparr>response = ''Response generation timed out. Try reducing max_tokens or simplifying your prompt.'',
                generation_time = None, tokens_per_second = None, token_count = None,
                success = False\<rparr>"
    by (simp add: BitNetChatAdvanced_generate_response_def)
next
  assume "subprocess_run (Some 60) p = Some TimeoutExpired"
  then show "run_single_inference prompt max_tokens threads_per_process p =
          Some (Inr \<lparr>inf_prompt = prompt, inf_output = ''Timeout'', inf_time = 60,
                      inf_success = False, inf_threads = threads_per_process\<rparr>)"
    by (simp add: run_single_inference_def)
next
  assume "BitNetChatAdvanced_generate_response p = Some r
        \<and> \<not> success r
        \<and> response r = ''Response generation timed out. Try reducing max_tokens or simplifying your prompt.''"
  then show "subprocess_run (Some 120) p = Some TimeoutExpired"
    by (cases p)
      (auto simp: BitNetChatAdvanced_generate_response_def Let_def split: if_splits)
next
  assume h: "subprocess_run (Some 120) p = Some TimeoutExpired
        \<and> stdin st = l # rest \<and> strip l \<noteq> [] \<and> \<not> prefix ''/'' (strip l)
        \<and> engine (calls st) (full_prompt_advanced (st\<lparr>stdin := rest\<rparr>) (strip l)) = p"
  then have "BitNetChatAdvanced_generate_response p =
          Some \<lparr>response = ''Response generation timed out. Try reducing max_tokens or simplifying your prompt.'',
                generation_time = None, tokens_per_second = None, token_count = None,
                success = False\<rparr>"
    by (simp add: BitNetChatAdvanced_generate_response_def)
  with h show "run_iteration py_float py_int str_float engine now st =
              Some (True, emit (Error_line ''Response generation timed out. Try reducing max_tokens or simplifying your prompt.'')
                            (st\<lparr>stdin := rest, calls := Suc (calls st)\<rparr>))"
    by (simp add: run_iteration_def input_def run_turn_def Let_def)
qed

theorem timeout_is_reported_and_session_goes_on_witness:
  "subprocess_run (Some 120) Hangs = Some TimeoutExpired
   \<and> subprocess_run (Some 60) Hangs = Some TimeoutExpired
   \<and> map_option success (BitNetChatAdvanced_generate_response Hangs) = Some False
   \<and> map_option fst (run_iteration (\<lambda>s. None) (\<lambda>s. None) (\<lambda>x. ''0'') (\<lambda>n q. Hangs)
         (\<lambda>n. ''12:00:00'') (BitNetChatAdvanced_init ''m.gguf'' Map.empty [''hello'']))
       = Some True
   \<and> map_option (map_sum id inf_success) (run_single_inference ''hi'' 50 4 Hangs)
       = Some (Inr False)"
proof -
  let ?st = "BitNetChatAdvanced_init ''m.gguf'' Map.empty [''hello'']"
  let ?engine = "\<lambda>(n::nat) (q::string). Hangs"
  note inst = timeout_is_reported_and_session_goes_on
    [of Hangs undefined ?st "''hello''" "[]" ?engine "\<lambda>s. None" "\<lambda>s. None" "\<lambda>x. ''0''"
        "\<lambda>n. ''12:00:00''" "''hi''" 50 4]
  have t120: "subprocess_run (Some 120) Hangs = Some TimeoutExpired"
    by simp
  have t60: "subprocess_run (Some 60) Hangs = Some TimeoutExpired"
    by simp
  have s: "strip ''hello'' = ''hello''"
    by code_simp
  have h: "subprocess_run (Some 120) Hangs = Some TimeoutExpired
        \<and> stdin ?st = ''hello'' # [] \<and> strip ''hello'' \<noteq> [] \<and> \<not> prefix ''/'' (strip ''hello'')
        \<and> ?engine (calls ?st) (full_prompt_advanced (?st\<lparr>stdin := []\<rparr>) (strip ''hello'')) = Hangs"
    unfolding s by (simp add: BitNetChatAdvanced_init_def)
  from mp [OF conjunct1 [OF conjunct2 [OF inst]] t120]
  have r1: "map_option success (BitNetChatAdvanced_generate_response Hangs) = Some False"
    by simp
  from mp [OF conjunct1 [OF conjunct2 [OF conjunct2 [OF conjunct2 [OF inst]]]] h]
  have r2: "map_option fst (run_iteration (\<lambda>s. None) (\<lambda>s. None) (\<lambda>x. ''0'') ?engine
         (\<lambda>n. ''12:00:00'') ?st) = Some True"
    by simp
  from mp [OF conjunct2 [OF conjunct2 [OF conjunct2 [OF conjunct2 [OF conjunct2 [OF inst]]]]] t60]
  have r3: "map_option (map_sum id inf_success) (run_single_inference ''hi'' 50 4 Hangs)
       = Some (Inr False)"
    by simp
  from t120 t60 r1 r2 r3 show ?thesis
    by blast
qed

text \<open>
  Not every invocation of the engine has a timeout: \<open>run_single_benchmark\<close> of
  \<open>benchmark_optimized.py\<close> calls \<open>subprocess.run\<close> without one, and on a process that never
  exits it does not return.
\<close>

theorem benchmark_waits_without_timeout:
  "run_single_benchmark Hangs = None
   \<and> subprocess_run None Hangs = None
   \<and> BitNetChatAdvanced_generate_response Hangs \<noteq> None"
  by (simp add: run_single_benchmark_def BitNetChatAdvanced_generate_response_def)

subsection \<open>The transcript of chat.py\<close>

lemma last_n_length: "length (last_n n xs) \<le> n"
  by (simp add: last_n_def)

lemma last_n_suffix: "suffix (last_n n xs) xs"
  by (simp add: last_n_def suffix_drop)

lemma last_n_append_last_n: "last_n n (last_n n xs @ ys) = last_n n (xs @ ys)"
  by (cases "length xs \<le> n") (auto simp: last_n_def add.commute)

lemma last_n_short: "length xs \<le> n \<Longrightarrow> last_n n xs = xs"
  by (simp add: last_n_def)

lemma BitNetChat_generate_response_returns: "\<exists>r. BitNetChat_generate_response p = Some r"
  by (cases p) (auto simp: BitNetChat_generate_response_def Let_def)

lemma BitNetChat_turn_history:
  "\<exists>reply st'. BitNetChat_turn engine u st = Some (Go_on, st')
     \<and> bc_stdin st' = bc_stdin st
     \<and> bc_conversation_history st'
         = last_n 20 (bc_conversation_history st @ [(User, u), (Assistant, reply)])"
proof -
  let ?q = "full_prompt_chat (bc_system_prompt st) (last_n 5 (bc_conversation_history st))
              @ [newline, newline] @ ''User: '' @ u @ [newline, newline] @ ''Assistant:''"
  obtain reply perf where r: "BitNetChat_generate_response (engine (bc_calls st) ?q) = Some (reply, perf)"
    using BitNetChat_generate_response_returns [of "engine (bc_calls st) ?q"] by auto
  show ?thesis
    using r by (auto simp: BitNetChat_turn_def Let_def bc_emit_def last_n_def)
qed


lemma bc_emit_history [simp]:
  "bc_conversation_history (bc_emit e st) = bc_conversation_history st"
  by (simp add: bc_emit_def)

lemma BitNetChat_command_history:
  "BitNetChat_command u st = (fl, st')
    \<Longrightarrow> bc_conversation_history st' = bc_conversation_history st \<or> bc_conversation_history st' = []"
  unfolding BitNetChat_command_def Let_def bc_after_dialog_def save_conversation_def
    change_system_prompt_def bc_input_def
  by (auto split: if_splits sum.splits option.splits list.splits)

lemma BitNetChat_iteration_returns: "\<exists>r. BitNetChat_iteration engine st = Some r"
proof (cases "bc_input st")
  case None
  then show ?thesis by (simp add: BitNetChat_iteration_def)
next
  case (Some a)
  obtain l st1 where a: "a = (l, st1)" by (cases a)
  from BitNetChat_turn_history [of engine "strip l" st1]
  obtain r where "BitNetChat_turn engine (strip l) st1 = Some r" by blast
  with Some a show ?thesis
    by (simp add: BitNetChat_iteration_def Let_def)
qed

lemma BitNetChat_iteration_bounded:
  assumes "BitNetChat_iteration engine st = Some (fl, st')"
    and "length (bc_conversation_history st) \<le> 20"
  shows "length (bc_conversation_history st') \<le> 20"
proof (cases "bc_input st")
  case None
  with assms show ?thesis by (auto simp: BitNetChat_iteration_def)
next
  case (Some a)
  obtain l st1 where a: "a = (l, st1)" by (cases a)
  with Some have h1: "bc_conversation_history st1 = bc_conversation_history st"
    by (auto simp: bc_input_def split: list.splits)
  consider "strip l = []" | "strip l \<noteq> []" "prefix ''/'' (strip l)"
    | "strip l \<noteq> []" "\<not> prefix ''/'' (strip l)"
    by blast
  then show ?thesis
  proof cases
    case 1
    with assms Some a h1 show ?thesis
      by (auto simp: BitNetChat_iteration_def Let_def)
  next
    case 2
    with assms(1) Some a have "BitNetChat_command (strip l) st1 = (fl, st')"
      by (simp add: BitNetChat_iteration_def Let_def)
    from BitNetChat_command_history [OF this] assms(2) h1 show ?thesis
      by auto
  next
    case 3
    with assms(1) Some a have t: "BitNetChat_turn engine (strip l) st1 = Some (fl, st')"
      by (simp add: BitNetChat_iteration_def Let_def)
    from BitNetChat_turn_history [of engine "strip l" st1] t
    obtain reply where "bc_conversation_history st'
         = last_n 20 (bc_conversation_history st1 @ [(User, strip l), (Assistant, reply)])"
      by auto
    then show ?thesis
      by (simp add: last_n_length)
  qed
qed

text \<open>
  The loop of \<open>run\<close> in \<open>chat.py\<close> always comes to an end on a finite input, and a
  transcript of at most 20 entries at its start has at most 20 entries at its end, whatever
  the user types and whatever the engine does.
\<close>

theorem BitNetChat_transcript_bounded:
  "\<exists>fl st'. BitNetChat_loop engine st = Some (fl, st')
     \<and> (length (bc_conversation_history st) \<le> 20 \<longrightarrow> length (bc_conversation_history st') \<le> 20)"
proof (induction engine st rule: BitNetChat_loop.induct)
  case (1 engine st)
  obtain fl st1 where it: "BitNetChat_iteration engine st = Some (fl, st1)"
    using BitNetChat_iteration_returns [of engine st] by auto
  show ?case
  proof (cases "fl = Go_on")
    case True
    from "1.IH" [OF it refl True] obtain fl' st' where
      l: "BitNetChat_loop engine st1 = Some (fl', st')"
      and b: "length (bc_conversation_history st1) \<le> 20 \<longrightarrow> length (bc_conversation_history st') \<le> 20"
      by blast
    have "BitNetChat_loop engine st = Some (fl', st')"
      using it True l by (subst BitNetChat_loop.simps) simp
    moreover have "length (bc_conversation_history st) \<le> 20
                     \<longrightarrow> length (bc_conversation_history st') \<le> 20"
      using b BitNetChat_iteration_bounded [OF it] by blast
    ultimately show ?thesis by blast
  next
    case False
    have "BitNetChat_loop engine st = Some (fl, st1)"
      using it False by (subst BitNetChat_loop.simps) simp
    then show ?thesis
      using BitNetChat_iteration_bounded [OF it] by blast
  qed
qed

theorem BitNetChat_transcript_bounded_witness:
  "length (bc_conversation_history (BitNetChat_init [''hello'', ''/clear'', ''more''])) \<le> 20
   \<and> (\<exists>fl st'. BitNetChat_loop (\<lambda>n q. Exits 1 0 ''Assistant: ok'' [])
                   (BitNetChat_init [''hello'', ''/clear'', ''more'']) = Some (fl, st')
          \<and> length (bc_conversation_history st') \<le> 20)"
  using BitNetChat_transcript_bounded
    [of "\<lambda>n q. Exits 1 0 ''Assistant: ok'' []" "BitNetChat_init [''hello'', ''/clear'', ''more'']"]
  by (auto simp: BitNetChat_init_def)

text \<open>
  When the user types plain lines only (no empty line and no command), the loop of
  \<open>chat.py\<close> ends with the transcript holding the most recent 20 entries of everything that
  was appended, in the order of appending: the oldest entries are the ones dropped.
\<close>

theorem BitNetChat_keeps_most_recent:
  assumes "bc_stdin st = ls"
    and "\<forall>l \<in> set ls. strip l \<noteq> [] \<and> \<not> prefix ''/'' (strip l)"
    and "length (bc_conversation_history st) \<le> 20"
  shows "\<exists>replies st'. BitNetChat_loop engine st = Some (Left, st')
           \<and> length replies = length ls
           \<and> bc_conversation_history st'
               = last_n 20 (bc_conversation_history st @ exchanges ls replies)"
  using assms
proof (induction ls arbitrary: st)
  case Nil
  then have "BitNetChat_iteration engine st = Some (Left, bc_emit Goodbye st)"
    by (simp add: BitNetChat_iteration_def bc_input_def)
  then have "BitNetChat_loop engine st = Some (Left, bc_emit Goodbye st)"
    by (subst BitNetChat_loop.simps) simp
  moreover have "bc_conversation_history (bc_emit Goodbye st)
                   = last_n 20 (bc_conversation_history st @ exchanges [] [])"
    using Nil.prems(3) by (simp add: last_n_short)
  ultimately show ?case
    by (intro exI [of _ "[]"]) auto
next
  case (Cons l ls)
  let ?st1 = "st\<lparr>bc_stdin := ls\<rparr>"
  have inp: "bc_input st = Some (l, ?st1)"
    using Cons.prems(1) by (simp add: bc_input_def)
  from BitNetChat_turn_history [of engine "strip l" ?st1]
  obtain reply st2 where t: "BitNetChat_turn engine (strip l) ?st1 = Some (Go_on, st2)"
    and s2: "bc_stdin st2 = ls"
    and h2: "bc_conversation_history st2
               = last_n 20 (bc_conversation_history st @ [(User, strip l), (Assistant, reply)])"
    by auto
  have it: "BitNetChat_iteration engine st = Some (Go_on, st2)"
    using inp t Cons.prems(2) by (simp add: BitNetChat_iteration_def Let_def)
  have "length (bc_conversation_history st2) \<le> 20"
    unfolding h2 by (rule last_n_length)
  with Cons.IH [of st2] s2 Cons.prems(2)
  obtain replies st' where l: "BitNetChat_loop engine st2 = Some (Left, st')"
    and n: "length replies = length ls"
    and h: "bc_conversation_history st'
              = last_n 20 (bc_conversation_history st2 @ exchanges ls replies)"
    by auto
  have "BitNetChat_loop engine st = Some (Left, st')"
    using it l by (subst BitNetChat_loop.simps) simp
  moreover have "bc_conversation_history st'
      = last_n 20 (bc_conversation_history st @ exchanges (l # ls) (reply # replies))"
    unfolding h h2 by (simp add: last_n_append_last_n)
  ultimately show ?case
    using n by (intro exI [of _ "reply # replies"]) auto
qed

theorem BitNetChat_keeps_most_recent_witness:
  "bc_stdin (BitNetChat_init [''hello'']) = [''hello'']
   \<and> strip ''hello'' \<noteq> [] \<and> \<not> prefix ''/'' (strip ''hello'')
   \<and> length (bc_conversation_history (BitNetChat_init [''hello''])) \<le> 20
   \<and> (\<exists>replies st'. BitNetChat_loop (\<lambda>n q. Exits 1 0 ''Assistant: ok'' [])
                        (BitNetChat_init [''hello'']) = Some (Left, st')
          \<and> length replies = length [''hello'']
          \<and> bc_conversation_history st'
              = last_n 20 (bc_conversation_history (BitNetChat_init [''hello''])
                           @ exchanges [''hello''] replies))"
proof -
  have s: "strip ''hello'' = ''hello''"
    by code_simp
  have h1: "bc_stdin (BitNetChat_init [''hello'']) = [''hello'']"
    by (simp add: BitNetChat_init_def)
  have h2: "\<forall>l \<in> set [''hello'']. strip l \<noteq> [] \<and> \<not> prefix ''/'' (strip l)"
    by (simp add: s)
  have h3: "length (bc_conversation_history (BitNetChat_init [''hello''])) \<le> 20"
    by (simp add: BitNetChat_init_def)
  from BitNetChat_keeps_most_recent [OF h1 h2 h3, of "\<lambda>n q. Exits 1 0 ''Assistant: ok'' []"]
    h1 h2 h3
  show ?thesis
    by simp
qed

end
